theory Spec2Isabelle
  imports Complex_Main "HOL-Library.AList"
begin

section \<open>JavaScript strings\<close>

text \<open>
  A JavaScript string is a sequence of UTF-16 code units, each given by its number.
  Literals of the sources are written \<open>str ''...''\<close>; a Latin-1 letter outside ASCII is written by its code,
  as in \<open>str ''br'' @ [0xF3] @ str ''coli''\<close>.
\<close>

type_synonym jsstring = "int list"

abbreviation str :: "string \<Rightarrow> jsstring" where
  "str s \<equiv> map of_char s"

text \<open>
  The characters \<open>String.prototype.trim\<close> strips and the class \<open>\s\<close> of a
  regular expression matches: WhiteSpace and LineTerminator of ECMAScript.
\<close>

definition isWhiteSpace :: "int \<Rightarrow> bool" where
  "isWhiteSpace c \<longleftrightarrow>
     c = 0x09 \<or> c = 0x0A \<or> c = 0x0B \<or> c = 0x0C \<or> c = 0x0D \<or> c = 0x20 \<or> c = 0xA0 \<or>
     c = 0x1680 \<or> (0x2000 \<le> c \<and> c \<le> 0x200A) \<or> c = 0x2028 \<or> c = 0x2029 \<or>
     c = 0x202F \<or> c = 0x205F \<or> c = 0x3000 \<or> c = 0xFEFF"

text \<open>The class \<open>\w\<close> of a regular expression without the unicode flag.\<close>

definition isWordChar :: "int \<Rightarrow> bool" where
  "isWordChar c \<longleftrightarrow>
     (0x30 \<le> c \<and> c \<le> 0x39) \<or> (0x41 \<le> c \<and> c \<le> 0x5A) \<or> c = 0x5F \<or>
     (0x61 \<le> c \<and> c \<le> 0x7A)"

text \<open>The combining diacritical marks \<open>U+0300\<close> to \<open>U+036F\<close>.\<close>

definition isCombiningMark :: "int \<Rightarrow> bool" where
  "isCombiningMark c \<longleftrightarrow> 0x300 \<le> c \<and> c \<le> 0x36F"

definition js_trim :: "jsstring \<Rightarrow> jsstring" where
  "js_trim s = rev (dropWhile isWhiteSpace (rev (dropWhile isWhiteSpace s)))"

text \<open>
  \<open>String.prototype.toLowerCase\<close> and \<open>String.prototype.normalize('NFD')\<close> are
  given on strings of the blocks Basic Latin and Latin-1 Supplement, which hold every
  letter of the vocabulary and of the catalogs below, and there they are the functions
  of the platform. Above \<open>U+00FF\<close> the platform has further case mappings and
  decompositions, and it reorders sequences of combining marks; the functions below leave
  such code units as they are. The theorems that follow either hold whatever these two
  functions are, or evaluate them on strings of the two blocks.
\<close>

definition toLowerCase_unit :: "int \<Rightarrow> int" where
  "toLowerCase_unit c =
     (if (0x41 \<le> c \<and> c \<le> 0x5A) \<or> (0xC0 \<le> c \<and> c \<le> 0xDE \<and> c \<noteq> 0xD7) then c + 0x20 else c)"

definition js_toLowerCase :: "jsstring \<Rightarrow> jsstring" where
  "js_toLowerCase s = map toLowerCase_unit s"

text \<open>
  The canonical decompositions of the capital letters of Latin-1: base letter and
  combining mark. The small letter \<open>c + 0x20\<close> decomposes into the small base letter
  and the same mark; \<open>U+00FF\<close> has no capital in the block.
\<close>

definition capital_decompositions :: "(int \<times> int \<times> int) list" where
  "capital_decompositions =
     [(0xC0, 0x41, 0x300), (0xC1, 0x41, 0x301), (0xC2, 0x41, 0x302), (0xC3, 0x41, 0x303),
      (0xC4, 0x41, 0x308), (0xC5, 0x41, 0x30A), (0xC7, 0x43, 0x327),
      (0xC8, 0x45, 0x300), (0xC9, 0x45, 0x301), (0xCA, 0x45, 0x302), (0xCB, 0x45, 0x308),
      (0xCC, 0x49, 0x300), (0xCD, 0x49, 0x301), (0xCE, 0x49, 0x302), (0xCF, 0x49, 0x308),
      (0xD1, 0x4E, 0x303),
      (0xD2, 0x4F, 0x300), (0xD3, 0x4F, 0x301), (0xD4, 0x4F, 0x302), (0xD5, 0x4F, 0x303),
      (0xD6, 0x4F, 0x308),
      (0xD9, 0x55, 0x300), (0xDA, 0x55, 0x301), (0xDB, 0x55, 0x302), (0xDC, 0x55, 0x308),
      (0xDD, 0x59, 0x301)]"

definition decompose_unit :: "int \<Rightarrow> jsstring" where
  "decompose_unit c =
     (if c = 0xFF then [0x79, 0x308]
      else case map_of capital_decompositions c of
        Some (b, m) \<Rightarrow> [b, m]
      | None \<Rightarrow>
          (if 0xE0 \<le> c then
             (case map_of capital_decompositions (c - 0x20) of
                Some (b, m) \<Rightarrow> [b + 0x20, m]
              | None \<Rightarrow> [c])
           else [c]))"

definition normalize_NFD :: "jsstring \<Rightarrow> jsstring" where
  "normalize_NFD s = concat (map decompose_unit s)"

text \<open>
  \<open>s.replace(/\s+/g, r)\<close> for a one-character \<open>r\<close>: every maximal run of
  white space becomes \<open>r\<close>.
\<close>

function replaceWhiteSpaceRuns :: "int \<Rightarrow> jsstring \<Rightarrow> jsstring" where
  "replaceWhiteSpaceRuns r [] = []"
| "replaceWhiteSpaceRuns r (c # cs) =
     (if isWhiteSpace c then r # replaceWhiteSpaceRuns r (dropWhile isWhiteSpace cs)
      else c # replaceWhiteSpaceRuns r cs)"
  by pat_completeness auto
termination
  by (relation "measure (\<lambda>(r, s). length s)")
    (auto simp: le_imp_less_Suc length_dropWhile_le)

definition js_startsWith :: "jsstring \<Rightarrow> jsstring \<Rightarrow> bool" where
  "js_startsWith s t \<longleftrightarrow> take (length t) s = t"

fun js_includes :: "jsstring \<Rightarrow> jsstring \<Rightarrow> bool" where
  "js_includes [] t \<longleftrightarrow> t = []"
| "js_includes (c # cs) t \<longleftrightarrow> js_startsWith (c # cs) t \<or> js_includes cs t"

text \<open>\<open>s.indexOf(t)\<close> where \<open>t\<close> occurs in \<open>s\<close>; \<open>-1\<close> where it does not.\<close>

fun js_indexOf :: "jsstring \<Rightarrow> jsstring \<Rightarrow> int" where
  "js_indexOf [] t = (if t = [] then 0 else -1)"
| "js_indexOf (c # cs) t =
     (if js_startsWith (c # cs) t then 0
      else (let i = js_indexOf cs t in if i < 0 then -1 else i + 1))"

section \<open>TextNormalizationService\<close>

record NormalizationOptions =
  removeAccents :: bool
  toLowerCase :: bool
  removeSpecialChars :: bool
  trimWhitespace :: bool

definition DEFAULT_OPTIONS :: NormalizationOptions where
  "DEFAULT_OPTIONS =
     \<lparr>removeAccents = True, toLowerCase = True, removeSpecialChars = True,
      trimWhitespace = True\<rparr>"

text \<open>
  \<open>TextNormalizationService.normalize(text, options)\<close>; \<open>config\<close> is the merged
  option set \<open>{...DEFAULT_OPTIONS, ...options}\<close>.
\<close>

definition normalize_text :: "NormalizationOptions \<Rightarrow> jsstring \<Rightarrow> jsstring" where
  "normalize_text config text =
     (if text = [] then []
      else
        let normalized = text;
            normalized = (if trimWhitespace config then js_trim normalized else normalized);
            normalized = (if toLowerCase config then js_toLowerCase normalized else normalized);
            normalized =
              (if removeAccents config
               then filter (\<lambda>c. \<not> isCombiningMark c) (normalize_NFD normalized)
               else normalized);
            normalized =
              (if removeSpecialChars config
               then filter (\<lambda>c. isWordChar c \<or> isWhiteSpace c) normalized
               else normalized)
        in replaceWhiteSpaceRuns 0x20 normalized)"

section \<open>Searchable items and search results\<close>

text \<open>
  An item \<open>T extends Searchable\<close> is a record extension of \<open>Searchable\<close>; the
  engine reads \<open>id\<close>, \<open>name\<close> and the optional \<open>category\<close>.
\<close>

record Searchable =
  item_id :: jsstring
  name :: jsstring
  category :: "jsstring option"

text \<open>\<open>(item as any).category || ''\<close>\<close>

definition category_or_empty :: "'t Searchable_scheme \<Rightarrow> jsstring" where
  "category_or_empty it = (case category it of None \<Rightarrow> [] | Some c \<Rightarrow> c)"

text \<open>
  The match types of a result. The engine and the strategies under study assign
  \<open>exact\<close>, \<open>fuzzy\<close> and \<open>partial\<close>; \<open>synonym\<close> is the fourth type of the
  data model. A score is a real number: the sources compute it from constants by
  products, sums and comparisons.
\<close>

datatype MatchType = Exact | Synonym | Fuzzy | Partial

record 't SearchResult =
  item :: "'t Searchable_scheme"
  score :: real
  matchType :: MatchType
  matchedTerms :: "jsstring list"
  originalQuery :: jsstring

record SearchOptions =
  threshold :: "real option"
  minScore :: "real option"
  maxResults :: "real option"

text \<open>A number in a condition: \<open>undefined\<close> and \<open>0\<close> are falsy.\<close>

definition truthy :: "real option \<Rightarrow> bool" where
  "truthy n = (case n of None \<Rightarrow> False | Some v \<Rightarrow> v \<noteq> 0)"

text \<open>
  \<open>xs.slice(0, e)\<close>: \<open>e\<close> is truncated towards zero; a negative end counts from
  the end of the array.
\<close>

definition slice0 :: "'a list \<Rightarrow> real \<Rightarrow> 'a list" where
  "slice0 xs e =
     (let k = (if 0 \<le> e then \<lfloor>e\<rfloor> else \<lceil>e\<rceil>)
      in if k < 0 then take (nat (int (length xs) + k)) xs else take (nat k) xs)"

text \<open>\<open>results.sort((a, b) => b.score - a.score)\<close>: a stable sort, best score first.\<close>

definition sortByScore :: "'t SearchResult list \<Rightarrow> 't SearchResult list" where
  "sortByScore rs = sort_key (\<lambda>r. - score r) rs"

section \<open>Fuse.js\<close>

text \<open>
  Fuse.js is a library: an index \<open>new Fuse(items, config)\<close> is known by its
  \<open>search\<close>, a function from the query to results that carry the item, an optional
  score and the optional list of matches, each with an optional \<open>value\<close>.
\<close>

record 't FuseResult =
  fuse_item :: "'t Searchable_scheme"
  fuse_score :: "real option"
  fuse_matches :: "jsstring option list option"

record FuseConfig =
  fuse_threshold :: real
  location :: nat
  distance :: nat
  maxPatternLength :: nat
  minMatchCharLength :: nat
  keys :: "(jsstring \<times> real) list"
  includeScore :: bool
  includeMatches :: bool
  shouldSort :: bool

type_synonym 't Fuse =
  "'t Searchable_scheme list \<Rightarrow> FuseConfig \<Rightarrow> jsstring \<Rightarrow> 't FuseResult list"

section \<open>HybridSearchEngine: hierarchical priority\<close>

record 't HybridSearchEngine =
  items :: "'t Searchable_scheme list"
  fuse :: "jsstring \<Rightarrow> 't FuseResult list"

definition getFuseConfig :: FuseConfig where
  "getFuseConfig =
     \<lparr>fuse_threshold = 0.4, location = 0, distance = 100, maxPatternLength = 32,
      minMatchCharLength = 2, keys = [(str ''name'', 0.8), (str ''category'', 0.3)],
      includeScore = True, includeMatches = True, shouldSort = True\<rparr>"

text \<open>The constructor, and \<open>updateItems\<close>, which replaces items and index together.\<close>

definition new_HybridSearchEngine ::
    "'t Fuse \<Rightarrow> 't Searchable_scheme list \<Rightarrow> 't HybridSearchEngine" where
  "new_HybridSearchEngine Fuse its = \<lparr>items = its, fuse = Fuse its getFuseConfig\<rparr>"

definition updateItems ::
    "'t Fuse \<Rightarrow> 't HybridSearchEngine \<Rightarrow> 't Searchable_scheme list \<Rightarrow> 't HybridSearchEngine" where
  "updateItems Fuse e its = e\<lparr>items := its, fuse := Fuse its getFuseConfig\<rparr>"

definition limitAndSort :: "'t SearchResult list \<Rightarrow> SearchOptions \<Rightarrow> 't SearchResult list" where
  "limitAndSort results options =
     (let filteredResults =
        sortByScore
          (filter (\<lambda>result. \<not> truthy (minScore options) \<or> the (minScore options) \<le> score result)
             results)
      in if truthy (maxResults options) then slice0 filteredResults (the (maxResults options))
         else filteredResults)"

primrec getExactMatchesOf ::
    "'t Searchable_scheme list \<Rightarrow> jsstring \<Rightarrow> jsstring \<Rightarrow> 't SearchResult list" where
  "getExactMatchesOf [] query normalizedQuery = []"
| "getExactMatchesOf (it # its) query normalizedQuery =
     (let normalizedName = normalize_text DEFAULT_OPTIONS (name it);
          normalizedCategory = normalize_text DEFAULT_OPTIONS (category_or_empty it)
      in if normalizedName = normalizedQuery then
           \<lparr>item = it, score = 1.0, matchType = Exact, matchedTerms = [name it],
            originalQuery = query\<rparr> # getExactMatchesOf its query normalizedQuery
         else if normalizedCategory = normalizedQuery then
           \<lparr>item = it, score = 0.95, matchType = Exact, matchedTerms = [category_or_empty it],
            originalQuery = query\<rparr> # getExactMatchesOf its query normalizedQuery
         else getExactMatchesOf its query normalizedQuery)"

definition getExactMatches ::
    "'t HybridSearchEngine \<Rightarrow> jsstring \<Rightarrow> jsstring \<Rightarrow> 't SearchResult list" where
  "getExactMatches e query normalizedQuery = getExactMatchesOf (items e) query normalizedQuery"

text \<open>\<open>Math.max(0, (1 - score) * 0.8)\<close>, with \<open>score = 1\<close> where Fuse gives none.\<close>

definition fuzzyScoreOf :: "'t FuseResult \<Rightarrow> real" where
  "fuzzyScoreOf fuseResult =
     (let score = (case fuse_score fuseResult of None \<Rightarrow> 1 | Some s \<Rightarrow> s)
      in max 0 ((1 - score) * 0.8))"

definition fuzzyMatchedTerms :: "'t FuseResult \<Rightarrow> jsstring list" where
  "fuzzyMatchedTerms fuseResult =
     (case fuse_matches fuseResult of
        Some matches \<Rightarrow> map (\<lambda>v. case v of None \<Rightarrow> [] | Some s \<Rightarrow> s) matches
      | None \<Rightarrow> [name (fuse_item fuseResult)])"

definition getFuzzyMatches ::
    "'t HybridSearchEngine \<Rightarrow> jsstring \<Rightarrow> SearchOptions \<Rightarrow> 't SearchResult list" where
  "getFuzzyMatches e query options =
     map (\<lambda>fuseResult.
           \<lparr>item = fuse_item fuseResult, score = fuzzyScoreOf fuseResult, matchType = Fuzzy,
            matchedTerms = fuzzyMatchedTerms fuseResult, originalQuery = query\<rparr>)
       (fuse e query)"

text \<open>
  The partial match of one item: score and matched terms, \<open>None\<close> where neither the
  name nor the category contains the query (\<open>matchScore\<close> stays \<open>0\<close>).
\<close>

definition partialMatch :: "'t Searchable_scheme \<Rightarrow> jsstring \<Rightarrow> (real \<times> jsstring list) option" where
  "partialMatch it normalizedQuery =
     (let normalizedName = normalize_text DEFAULT_OPTIONS (name it);
          normalizedCategory = normalize_text DEFAULT_OPTIONS (category_or_empty it);
          (matchScore, terms) = (0, []);
          (matchScore, terms) =
            (if js_includes normalizedName normalizedQuery
             then (max matchScore 0.6, terms @ [name it])
             else (matchScore, terms));
          (matchScore, terms) =
            (if js_includes normalizedCategory normalizedQuery
             then (max matchScore 0.5, terms @ [category_or_empty it])
             else (matchScore, terms))
      in if 0 < matchScore then Some (matchScore, terms) else None)"

primrec getPartialMatchesOf ::
    "'t Searchable_scheme list \<Rightarrow> jsstring \<Rightarrow> 't SearchResult list" where
  "getPartialMatchesOf [] normalizedQuery = []"
| "getPartialMatchesOf (it # its) normalizedQuery =
     (case partialMatch it normalizedQuery of
        Some (matchScore, terms) \<Rightarrow>
          \<lparr>item = it, score = matchScore, matchType = Partial, matchedTerms = terms,
           originalQuery = normalizedQuery\<rparr> # getPartialMatchesOf its normalizedQuery
      | None \<Rightarrow> getPartialMatchesOf its normalizedQuery)"

definition getPartialMatches :: "'t HybridSearchEngine \<Rightarrow> jsstring \<Rightarrow> 't SearchResult list" where
  "getPartialMatches e normalizedQuery = getPartialMatchesOf (items e) normalizedQuery"

text \<open>\<open>search\<close> of \<open>services/search/HybridSearchEngine.ts\<close>.\<close>

definition search ::
    "'t HybridSearchEngine \<Rightarrow> jsstring \<Rightarrow> SearchOptions \<Rightarrow> 't SearchResult list" where
  "search e query options =
     (if query = [] \<or> length (js_trim query) = 0 then []
      else
        let normalizedQuery = normalize_text DEFAULT_OPTIONS query;
            exactResults = getExactMatches e query normalizedQuery
        in if length exactResults > 0 then limitAndSort exactResults options
           else
             let fuzzyResults = getFuzzyMatches e query options
             in if length fuzzyResults > 0 then limitAndSort fuzzyResults options
                else limitAndSort (getPartialMatches e normalizedQuery) options)"

section \<open>HybridSearchEngine: merging the strategies\<close>

text \<open>
  The other \<open>search\<close> of the sources collects the results of all three strategies in a
  \<open>Map\<close> from item id to result. A \<open>Map\<close> keeps its keys in insertion order, and
  \<open>set\<close> on a present key keeps the key's place: an association list under
  \<^const>\<open>AList.update\<close>.
\<close>

type_synonym 't ResultMap = "(jsstring \<times> 't SearchResult) list"

primrec exactSearchOf ::
    "'t Searchable_scheme list \<Rightarrow> jsstring \<Rightarrow> jsstring \<Rightarrow> 't ResultMap \<Rightarrow> 't ResultMap" where
  "exactSearchOf [] query normalizedQuery results = results"
| "exactSearchOf (it # its) query normalizedQuery results =
     (let normalizedName = normalize_text DEFAULT_OPTIONS (name it);
          normalizedCategory = normalize_text DEFAULT_OPTIONS (category_or_empty it)
      in if normalizedName = normalizedQuery then
           exactSearchOf its query normalizedQuery
             (AList.update (item_id it)
                \<lparr>item = it, score = 1.0, matchType = Exact, matchedTerms = [name it],
                 originalQuery = query\<rparr> results)
         else if normalizedCategory = normalizedQuery then
           exactSearchOf its query normalizedQuery
             (AList.update (item_id it)
                \<lparr>item = it, score = 0.95, matchType = Exact,
                 matchedTerms = [category_or_empty it], originalQuery = query\<rparr> results)
         else exactSearchOf its query normalizedQuery results)"

definition exactSearch ::
    "'t HybridSearchEngine \<Rightarrow> jsstring \<Rightarrow> jsstring \<Rightarrow> 't ResultMap \<Rightarrow> 't ResultMap" where
  "exactSearch e query normalizedQuery results = exactSearchOf (items e) query normalizedQuery results"

primrec fuzzySearchOf ::
    "'t FuseResult list \<Rightarrow> jsstring \<Rightarrow> 't ResultMap \<Rightarrow> 't ResultMap" where
  "fuzzySearchOf [] query results = results"
| "fuzzySearchOf (fuseResult # fuseResults) query results =
     (let it = fuse_item fuseResult;
          existingResult = map_of results (item_id it);
          fuzzyScore = fuzzyScoreOf fuseResult
      in if (case existingResult of
               None \<Rightarrow> True
             | Some r \<Rightarrow> matchType r = Partial \<and> score r < fuzzyScore)
         then
           fuzzySearchOf fuseResults query
             (AList.update (item_id it)
                \<lparr>item = it, score = fuzzyScore, matchType = Fuzzy,
                 matchedTerms = fuzzyMatchedTerms fuseResult, originalQuery = query\<rparr> results)
         else fuzzySearchOf fuseResults query results)"

definition fuzzySearch ::
    "'t HybridSearchEngine \<Rightarrow> jsstring \<Rightarrow> SearchOptions \<Rightarrow> 't ResultMap \<Rightarrow> 't ResultMap" where
  "fuzzySearch e query options results = fuzzySearchOf (fuse e query) query results"

primrec partialSearchOf ::
    "'t Searchable_scheme list \<Rightarrow> jsstring \<Rightarrow> 't ResultMap \<Rightarrow> 't ResultMap" where
  "partialSearchOf [] normalizedQuery results = results"
| "partialSearchOf (it # its) normalizedQuery results =
     (if (case map_of results (item_id it) of
            None \<Rightarrow> False
          | Some existingResult \<Rightarrow> matchType existingResult \<noteq> Partial)
      then partialSearchOf its normalizedQuery results
      else
        (case partialMatch it normalizedQuery of
           Some (matchScore, terms) \<Rightarrow>
             partialSearchOf its normalizedQuery
               (AList.update (item_id it)
                  \<lparr>item = it, score = matchScore, matchType = Partial,
                   matchedTerms = terms, originalQuery = normalizedQuery\<rparr> results)
         | None \<Rightarrow> partialSearchOf its normalizedQuery results))"

definition partialSearch ::
    "'t HybridSearchEngine \<Rightarrow> jsstring \<Rightarrow> 't ResultMap \<Rightarrow> 't ResultMap" where
  "partialSearch e normalizedQuery results = partialSearchOf (items e) normalizedQuery results"

definition search_merged ::
    "'t HybridSearchEngine \<Rightarrow> jsstring \<Rightarrow> SearchOptions \<Rightarrow> 't SearchResult list" where
  "search_merged e query options =
     (if query = [] \<or> length (js_trim query) = 0 then []
      else
        let normalizedQuery = normalize_text DEFAULT_OPTIONS query;
            results = [];
            results = exactSearch e query normalizedQuery results;
            results = fuzzySearch e query options results;
            results = partialSearch e normalizedQuery results;
            sortedResults =
              sortByScore
                (filter (\<lambda>result. \<not> truthy (minScore options) \<or> the (minScore options) \<le> score result)
                   (map snd results))
        in if truthy (maxResults options) then slice0 sortedResults (the (maxResults options))
           else sortedResults)"

section \<open>Plain objects as dictionaries\<close>

text \<open>
  The synonym index is a plain object \<open>{}\<close> used as a dictionary. Its own properties
  are an association list in insertion order (no key of the vocabulary is an array index
  or \<open>__proto__\<close>, so an assignment \<open>obj[k] = v\<close> is \<^const>\<open>AList.update\<close>, and
  \<open>Object.entries\<close> is the list itself). A read \<open>obj[k]\<close> finds an own property, or
  else a property inherited from \<open>Object.prototype\<close>, or else \<open>undefined\<close>.
\<close>

datatype 'a property = Own 'a | Inherited | Absent

definition Object_prototype_properties :: "jsstring list" where
  "Object_prototype_properties =
     [str ''constructor'', str ''__defineGetter__'', str ''__defineSetter__'',
      str ''hasOwnProperty'', str ''__lookupGetter__'', str ''__lookupSetter__'',
      str ''isPrototypeOf'', str ''propertyIsEnumerable'', str ''toString'', str ''valueOf'',
      str ''__proto__'', str ''toLocaleString'']"

definition get_property :: "(jsstring \<times> 'a) list \<Rightarrow> jsstring \<Rightarrow> 'a property" where
  "get_property obj key =
     (case map_of obj key of
        Some v \<Rightarrow> Own v
      | None \<Rightarrow> if key \<in> set Object_prototype_properties then Inherited else Absent)"

section \<open>The synonym database\<close>

record RegionInfo =
  region :: jsstring
  country :: jsstring
  language :: "jsstring option"

record SynonymEntry =
  canonical :: jsstring
  productId :: jsstring
  confidence :: real
  regionInfo :: "RegionInfo option"

record SynonymData =
  data_canonical :: jsstring
  data_productId :: jsstring
  synonyms :: "(jsstring \<times> jsstring list) list"

record Metadata =
  meta_canonical :: jsstring
  regions :: "(jsstring \<times> jsstring list) list"

record SynonymDatabase =
  searchIndex :: "(jsstring \<times> SynonymEntry) list"
  metadata :: "(jsstring \<times> Metadata) list"

definition synonymsData :: "(jsstring \<times> SynonymData) list" where
  "synonymsData =
     [
      (str ''avocado'',
       \<lparr>data_canonical = str ''avocado'', data_productId = str ''avocado_001'',
        synonyms =
          [(str ''palta'', [str ''AR'', str ''CL'', str ''PE'', str ''UY'']),
           (str ''aguacate'', [str ''MX'', str ''ES'', str ''CO'', str ''VE'', str ''EC''])]\<rparr>),
      (str ''sweet potato'',
       \<lparr>data_canonical = str ''sweet potato'', data_productId = str ''sweet_potato_006'',
        synonyms =
          [(str ''batata'', [str ''AR'', str ''UY'']),
           (str ''boniato'', [str ''ES'']),
           (str ''camote'', [str ''MX'', str ''PE'']),
           ([0xF1] @ str ''ame'', [str ''CO'', str ''VE'']),
           (str ''papa dulce'', [str ''CL'', str ''EC''])]\<rparr>),
      (str ''potato chips'',
       \<lparr>data_canonical = str ''potato chips'', data_productId = str ''chips_009'',
        synonyms =
          [(str ''papas fritas'', [str ''MX'', str ''CO'', str ''VE'', str ''EC'']),
           (str ''patatas fritas'', [str ''ES'']),
           (str ''papitas'', [str ''AR'', str ''CL'', str ''UY'']),
           (str ''chips'', [str ''US'', str ''GB''])]\<rparr>),
      (str ''broccoli'',
       \<lparr>data_canonical = str ''broccoli'', data_productId = str ''broccoli_001'',
        synonyms =
          [(str ''br'' @ [0xF3] @ str ''coli'', [str ''MX'', str ''ES'', str ''CO'', str ''AR'']),
           (str ''br'' @ [0xE9] @ str ''col'', [str ''ES''])]\<rparr>),
      (str ''kale'',
       \<lparr>data_canonical = str ''kale'', data_productId = str ''kale_005'',
        synonyms =
          [(str ''col rizada'', [str ''ES'', str ''MX'', str ''CO'']),
           (str ''col crespa'', [str ''AR'', str ''CL'']),
           (str ''berza'', [str ''ES'']),
           (str ''acelga silvestre'', [str ''EC'', str ''PE''])]\<rparr>),
      (str ''chia seeds'',
       \<lparr>data_canonical = str ''chia seeds'', data_productId = str ''chia_seeds_008'',
        synonyms =
          [(str ''semillas de ch'' @ [0xED] @ str ''a'', [str ''MX'', str ''ES'', str ''CO'', str ''AR'']),
           (str ''ch'' @ [0xED] @ str ''a'', [str ''MX'', str ''GT'', str ''SV''])]\<rparr>),
      (str ''greek yogurt'',
       \<lparr>data_canonical = str ''greek yogurt'', data_productId = str ''greek_yogurt_007'',
        synonyms =
          [(str ''yogur griego'', [str ''ES'', str ''MX'', str ''CO'', str ''AR'']),
           (str ''yogurt griego'', [str ''MX'', str ''VE'']),
           (str ''yoghurt griego'', [str ''AR'', str ''UY''])]\<rparr>),
      (str ''quinoa'',
       \<lparr>data_canonical = str ''quinoa'', data_productId = str ''quinoa_002'',
        synonyms =
          [(str ''quinua'', [str ''PE'', str ''BO'', str ''EC'']),
           (str ''kinoa'', [str ''CL'']),
           (str ''qu'' @ [0xED] @ str ''noa'', [str ''ES''])]\<rparr>),
      (str ''blueberries'',
       \<lparr>data_canonical = str ''blueberries'', data_productId = str ''blueberries_005'',
        synonyms =
          [(str ''ar'' @ [0xE1] @ str ''ndanos'', [str ''ES'', str ''MX'', str ''CO'', str ''AR'']),
           (str ''ar'' @ [0xE1] @ str ''ndanos azules'', [str ''ES'']),
           (str ''mirtilo'', [str ''AR'', str ''UY'']),
           (str ''blueberry'', [str ''US'', str ''GB''])]\<rparr>),
      (str ''carrot'',
       \<lparr>data_canonical = str ''carrot'', data_productId = str ''carrot_004'',
        synonyms =
          [(str ''zanahoria'', [str ''ES'', str ''MX'', str ''CO'', str ''AR'']),
           (str ''carlota'', [str ''VE'']),
           (str ''daucus'', [str ''ES''])]\<rparr>),
      (str ''banana'',
       \<lparr>data_canonical = str ''banana'', data_productId = str ''banana_010'',
        synonyms =
          [(str ''banana'', [str ''AR'', str ''UY'', str ''PY'']),
           (str ''banano'', [str ''CO'', str ''VE'', str ''EC'', str ''PE'']),
           (str ''pl'' @ [0xE1] @ str ''tano'', [str ''MX'', str ''ES'', str ''GT'', str ''SV'', str ''HN'']),
           (str ''cambur'', [str ''VE'']),
           (str ''guineo'', [str ''DO'', str ''PR'', str ''CU''])]\<rparr>),
      (str ''apple'',
       \<lparr>data_canonical = str ''apple'', data_productId = str ''apple_002'',
        synonyms =
          [(str ''manzana'', [str ''MX'', str ''ES'', str ''CO'', str ''AR'', str ''VE'', str ''EC'']),
           (str ''poma'', [str ''CL''])]\<rparr>),
      (str ''spinach'',
       \<lparr>data_canonical = str ''spinach'', data_productId = str ''spinach_003'',
        synonyms =
          [(str ''espinaca'', [str ''MX'', str ''ES'', str ''CO'', str ''AR'', str ''VE'', str ''EC'']),
           (str ''espinafre'', [str ''BR''])]\<rparr>),
      (str ''cauliflower'',
       \<lparr>data_canonical = str ''cauliflower'', data_productId = str ''cauliflower_006'',
        synonyms =
          [(str ''coliflor'', [str ''MX'', str ''ES'', str ''CO'', str ''AR'', str ''VE'', str ''EC'']),
           (str ''couve-flor'', [str ''BR''])]\<rparr>),
      (str ''brussels sprouts'',
       \<lparr>data_canonical = str ''brussels sprouts'', data_productId = str ''brussels_007'',
        synonyms =
          [(str ''coles de bruselas'', [str ''ES'', str ''MX'', str ''CO'', str ''AR'']),
           (str ''repollitas de bruselas'', [str ''AR'', str ''CL'']),
           (str ''couvinha de bruxelas'', [str ''BR''])]\<rparr>),
      (str ''pear'',
       \<lparr>data_canonical = str ''pear'', data_productId = str ''pear_008'',
        synonyms =
          [(str ''pera'', [str ''MX'', str ''ES'', str ''CO'', str ''AR'', str ''VE'', str ''EC'']),
           (str ''p'' @ [0xEA] @ str ''ra'', [str ''BR''])]\<rparr>),
      (str ''orange'',
       \<lparr>data_canonical = str ''orange'', data_productId = str ''orange_009'',
        synonyms =
          [(str ''naranja'', [str ''MX'', str ''ES'', str ''CO'', str ''AR'', str ''VE'', str ''EC'']),
           (str ''china'', [str ''PR'', str ''DO'']),
           (str ''laranja'', [str ''BR''])]\<rparr>),
      (str ''salmon'',
       \<lparr>data_canonical = str ''salmon'', data_productId = str ''salmon_003'',
        synonyms =
          [(str ''salm'' @ [0xF3] @ str ''n'', [str ''MX'', str ''ES'', str ''CO'', str ''AR'', str ''VE'', str ''EC'']),
           (str ''salm'' @ [0xE3] @ str ''o'', [str ''BR''])]\<rparr>),
      (str ''almonds'',
       \<lparr>data_canonical = str ''almonds'', data_productId = str ''almonds_004'',
        synonyms =
          [(str ''almendras'', [str ''MX'', str ''ES'', str ''CO'', str ''AR'', str ''VE'', str ''EC'']),
           (str ''am'' @ [0xEA] @ str ''ndoas'', [str ''BR''])]\<rparr>),
      (str ''popcorn'',
       \<lparr>data_canonical = str ''popcorn'', data_productId = str ''chips_009'',
        synonyms =
          [(str ''palomitas de ma'' @ [0xED] @ str ''z'', [str ''MX'', str ''ES'', str ''CO'', str ''VE'']),
           (str ''palomitas'', [str ''MX'', str ''ES'']),
           (str ''pochoclo'', [str ''AR'', str ''UY'']),
           (str ''canguil'', [str ''EC'', str ''PE'']),
           (str ''cotufas'', [str ''VE'']),
           (str ''crispetas'', [str ''CO'']),
           (str ''poror'' @ [0xF3], [str ''BR'']),
           (str ''rositas de ma'' @ [0xED] @ str ''z'', [str ''GT'', str ''SV'', str ''HN''])]\<rparr>)]"

definition countries :: "(jsstring \<times> jsstring) list" where
  "countries =
     [(str ''AR'', str ''Argentina''),
      (str ''MX'', str ''M'' @ [0xE9] @ str ''xico''),
      (str ''ES'', str ''Espa'' @ [0xF1] @ str ''a''),
      (str ''CO'', str ''Colombia''),
      (str ''EC'', str ''Ecuador''),
      (str ''PE'', str ''Per'' @ [0xFA]),
      (str ''CL'', str ''Chile''),
      (str ''VE'', str ''Venezuela''),
      (str ''UY'', str ''Uruguay''),
      (str ''PY'', str ''Paraguay''),
      (str ''DO'', str ''Rep'' @ [0xFA] @ str ''blica Dominicana''),
      (str ''GT'', str ''Guatemala''),
      (str ''SV'', str ''El Salvador''),
      (str ''BR'', str ''Brasil''),
      (str ''US'', str ''Estados Unidos''),
      (str ''GB'', str ''Reino Unido'')]"

text \<open>
  \<open>countries[regionCode] || regionCode\<close>; the region codes of the vocabulary are pairs
  of capital letters, none of them the name of an inherited property.
\<close>

definition getCountryName :: "jsstring \<Rightarrow> jsstring" where
  "getCountryName regionCode =
     (case map_of countries regionCode of
        Some c \<Rightarrow> if c = [] then regionCode else c
      | None \<Rightarrow> regionCode)"

datatype js_error = TypeError

text \<open>
  The inner loop of \<open>buildSearchIndex\<close> over the synonyms of one group. With an empty
  region list \<open>regions[0]\<close> is \<open>undefined\<close> and \<open>regions[0].length\<close> throws.
\<close>

fun addSynonyms ::
    "jsstring \<Rightarrow> jsstring \<Rightarrow> (jsstring \<times> jsstring list) list \<Rightarrow>
     (jsstring \<times> SynonymEntry) list \<Rightarrow> js_error + (jsstring \<times> SynonymEntry) list" where
  "addSynonyms c pid [] idx = Inr idx"
| "addSynonyms c pid ((synonym, []) # rest) idx = Inl TypeError"
| "addSynonyms c pid ((synonym, r0 # rs) # rest) idx =
     addSynonyms c pid rest
       (AList.update (js_toLowerCase synonym)
          \<lparr>canonical = c, productId = pid, confidence = 0.9,
           regionInfo =
             Some \<lparr>region = r0, country = getCountryName r0,
                   language = Some (if length r0 = 2 then str ''es'' else str ''en'')\<rparr>\<rparr>
          idx)"

text \<open>The outer loop: \<open>c\<close> is the key of the group in \<open>synonymsData\<close>.\<close>

fun buildGroups ::
    "(jsstring \<times> SynonymData) list \<Rightarrow> SynonymDatabase \<Rightarrow> js_error + SynonymDatabase" where
  "buildGroups [] db = Inr db"
| "buildGroups ((c, d) # rest) db =
     (let pid =
            (if data_productId d = [] then str ''temp_'' @ replaceWhiteSpaceRuns 0x5F c
             else data_productId d);
          idx =
            AList.update (js_toLowerCase c)
              \<lparr>canonical = c, productId = pid, confidence = 1.0, regionInfo = None\<rparr>
              (searchIndex db)
      in case addSynonyms c pid (synonyms d) idx of
           Inl e \<Rightarrow> Inl e
         | Inr idx' \<Rightarrow>
             buildGroups rest
               \<lparr>searchIndex = idx',
                metadata =
                  AList.update pid \<lparr>meta_canonical = c, regions = synonyms d\<rparr> (metadata db)\<rparr>)"

definition buildSearchIndex :: "js_error + SynonymDatabase" where
  "buildSearchIndex = buildGroups synonymsData \<lparr>searchIndex = [], metadata = []\<rparr>"

definition SYNONYM_DATABASE :: "js_error + SynonymDatabase" where
  "SYNONYM_DATABASE = buildSearchIndex"

section \<open>SynonymService\<close>

record SynonymMatch =
  canonicalTerm :: "jsstring option"
  originalTerm :: jsstring
  matchConfidence :: "real option"
  matchRegionInfo :: "RegionInfo option"

text \<open>
  The index the service holds, \<open>SYNONYM_DATABASE.searchIndex\<close>. The operations below
  take \<open>this.searchIndex\<close> as their first argument.
\<close>

definition SynonymService_searchIndex :: "(jsstring \<times> SynonymEntry) list" where
  "SynonymService_searchIndex =
     (case SYNONYM_DATABASE of Inr db \<Rightarrow> searchIndex db | Inl e \<Rightarrow> [])"

text \<open>
  \<open>normalize(term, {}, 'standard')\<close> is the normalization under the default options.
  An inherited property is an object without the fields of an entry: the match is
  pushed with \<open>canonicalTerm\<close>, \<open>confidence\<close> and \<open>regionInfo\<close> undefined.
\<close>

definition findSynonyms :: "(jsstring \<times> SynonymEntry) list \<Rightarrow> jsstring \<Rightarrow> SynonymMatch list" where
  "findSynonyms idx term =
     (if term = [] \<or> length (js_trim term) = 0 then []
      else
        let normalizedTerm = normalize_text DEFAULT_OPTIONS term
        in case get_property idx normalizedTerm of
             Own synonymEntry \<Rightarrow>
               [\<lparr>canonicalTerm = Some (canonical synonymEntry), originalTerm = term,
                 matchConfidence = Some (confidence synonymEntry),
                 matchRegionInfo = regionInfo synonymEntry\<rparr>]
           | Inherited \<Rightarrow>
               [\<lparr>canonicalTerm = None, originalTerm = term, matchConfidence = None,
                 matchRegionInfo = None\<rparr>]
           | Absent \<Rightarrow> [])"

definition hasSynonyms :: "(jsstring \<times> SynonymEntry) list \<Rightarrow> jsstring \<Rightarrow> bool" where
  "hasSynonyms idx term =
     (case get_property idx (normalize_text DEFAULT_OPTIONS term) of
        Absent \<Rightarrow> False
      | _ \<Rightarrow> True)"

definition getCanonicalTerm :: "(jsstring \<times> SynonymEntry) list \<Rightarrow> jsstring \<Rightarrow> jsstring option" where
  "getCanonicalTerm idx term =
     (case get_property idx (normalize_text DEFAULT_OPTIONS term) of
        Own entry \<Rightarrow> Some (canonical entry)
      | _ \<Rightarrow> None)"



section \<open>SynonymMatchStrategy\<close>

text \<open>
  A product with an undefined confidence is \<open>NaN\<close>, written \<open>None\<close>; the test
  \<open>matchScore > 0\<close> fails for it.
\<close>

definition times_confidence :: "real option \<Rightarrow> real \<Rightarrow> real option" where
  "times_confidence c x = (case c of None \<Rightarrow> None | Some v \<Rightarrow> Some (v * x))"

text \<open>\<open>`${synonymMatch.originalTerm} \<rightarrow> ${synonymMatch.canonicalTerm}`\<close>\<close>

definition arrowTerm :: "SynonymMatch \<Rightarrow> jsstring" where
  "arrowTerm m =
     originalTerm m @ [0x20, 0x2192, 0x20] @
     (case canonicalTerm m of None \<Rightarrow> str ''undefined'' | Some c \<Rightarrow> c)"

text \<open>
  The score and the matched terms of one item against the canonical term. In the second
  and third branch the normalized name is not empty, so the ratios are divisions by a
  positive length.
\<close>

definition synonymScore ::
    "SynonymMatch \<Rightarrow> jsstring \<Rightarrow> 't Searchable_scheme \<Rightarrow> real option \<times> jsstring list" where
  "synonymScore synonymMatch canonicalNormalized it =
     (let normalizedName = normalize_text DEFAULT_OPTIONS (name it);
          normalizedCategory = normalize_text DEFAULT_OPTIONS (category_or_empty it)
      in if normalizedName = canonicalNormalized then
           (times_confidence (matchConfidence synonymMatch) 0.95, [name it])
         else if js_startsWith normalizedName canonicalNormalized then
           (let lengthRatio = real (length canonicalNormalized) / real (length normalizedName)
            in (times_confidence (matchConfidence synonymMatch) (0.85 + lengthRatio * 0.1),
                [name it]))
         else if 4 \<le> length canonicalNormalized \<and> js_includes normalizedName canonicalNormalized
         then
           (let position = js_indexOf normalizedName canonicalNormalized;
                lengthRatio = real (length canonicalNormalized) / real (length normalizedName);
                positionPenalty = real_of_int position / real (length normalizedName)
            in (times_confidence (matchConfidence synonymMatch)
                  ((0.7 + lengthRatio * 0.15) * (1 - positionPenalty * 0.3)),
                [name it]))
         else if normalizedCategory = canonicalNormalized then
           (times_confidence (matchConfidence synonymMatch) 0.8, [category_or_empty it])
         else (Some 0, []))"

text \<open>The first result that satisfies \<open>P\<close> is replaced by its image under \<open>f\<close>.\<close>

fun updateFirst :: "('a \<Rightarrow> bool) \<Rightarrow> ('a \<Rightarrow> 'a) \<Rightarrow> 'a list \<Rightarrow> 'a list" where
  "updateFirst P f [] = []"
| "updateFirst P f (x # xs) = (if P x then f x # xs else x # updateFirst P f xs)"

definition addSynonymResult ::
    "jsstring \<Rightarrow> SynonymMatch \<Rightarrow> jsstring \<Rightarrow> 't Searchable_scheme \<Rightarrow>
     't SearchResult list \<Rightarrow> 't SearchResult list" where
  "addSynonymResult query synonymMatch canonicalNormalized it results =
     (case synonymScore synonymMatch canonicalNormalized it of
        (None, terms) \<Rightarrow> results
      | (Some matchScore, terms) \<Rightarrow>
          if 0 < matchScore then
            (case find (\<lambda>r. item_id (item r) = item_id it) results of
               None \<Rightarrow>
                 results @
                 [\<lparr>item = it, score = matchScore, matchType = Partial,
                   matchedTerms = terms @ [arrowTerm synonymMatch], originalQuery = query\<rparr>]
             | Some existingResult \<Rightarrow>
                 if score existingResult < matchScore then
                   updateFirst (\<lambda>r. item_id (item r) = item_id it)
                     (\<lambda>r. r\<lparr>score := matchScore,
                            matchedTerms := matchedTerms r @ [arrowTerm synonymMatch]\<rparr>)
                     results
                 else results)
          else results)"

definition findMatches ::
    "(jsstring \<times> SynonymEntry) list \<Rightarrow> 't Searchable_scheme list \<Rightarrow> jsstring \<Rightarrow> jsstring \<Rightarrow>
     't SearchResult list" where
  "findMatches idx its query normalizedQuery =
     (let synonymMatches = findSynonyms idx query
      in if length synonymMatches = 0 then []
         else
           sortByScore
             (fold
                (\<lambda>synonymMatch results.
                   let canonicalNormalized =
                         normalize_text DEFAULT_OPTIONS
                           (case canonicalTerm synonymMatch of None \<Rightarrow> [] | Some c \<Rightarrow> c)
                   in fold (addSynonymResult query synonymMatch canonicalNormalized) its results)
                synonymMatches []))"

section \<open>QueryEngine\<close>

text \<open>
  A filter criterion carries its type; its other fields are read by the filter
  definitions only. A registry is the \<open>Map\<close> from type to definition.
\<close>

record 'c FilterCriteria =
  filter_type :: jsstring
  payload :: 'c

record ('t, 'c) FilterDefinition =
  definition_type :: jsstring
  applyFilter :: "'t Searchable_scheme list \<Rightarrow> 'c FilterCriteria \<Rightarrow> 't Searchable_scheme list"

datatype SortOrder = Asc | Desc

record 'c QueryOptions =
  searchTerm :: "jsstring option"
  filters :: "'c FilterCriteria list option"
  sortBy :: "jsstring option"
  sortOrder :: "SortOrder option"

record ('t, 'c) QueryResult =
  result_items :: "'t Searchable_scheme list"
  totalCount :: nat
  appliedFilters :: "'c FilterCriteria list"

text \<open>
  What the engine takes from the platform in its sorting step: \<open>Array.prototype.sort\<close>
  under a comparator (whose result is implementation-defined for a comparator that never
  answers \<open>0\<close>), and the comparison \<open>a[key] > b[key]\<close> of a property of two items.
\<close>

record 't Runtime =
  array_sort :: "('t Searchable_scheme \<Rightarrow> 't Searchable_scheme \<Rightarrow> int) \<Rightarrow>
                 't Searchable_scheme list \<Rightarrow> 't Searchable_scheme list"
  property_gt :: "jsstring \<Rightarrow> 't Searchable_scheme \<Rightarrow> 't Searchable_scheme \<Rightarrow> bool"

definition registerFilter ::
    "(jsstring \<times> ('t, 'c) FilterDefinition) list \<Rightarrow> ('t, 'c) FilterDefinition \<Rightarrow>
     (jsstring \<times> ('t, 'c) FilterDefinition) list" where
  "registerFilter filterRegistry d = AList.update (definition_type d) d filterRegistry"

definition getRegisteredFilters ::
    "(jsstring \<times> ('t, 'c) FilterDefinition) list \<Rightarrow> ('t, 'c) FilterDefinition list" where
  "getRegisteredFilters filterRegistry = map snd filterRegistry"

text \<open>The loop over \<open>options.filters\<close>: the items and the applied filters so far.\<close>

fun applyFilters ::
    "(jsstring \<times> ('t, 'c) FilterDefinition) list \<Rightarrow> 'c FilterCriteria list \<Rightarrow>
     't Searchable_scheme list \<times> 'c FilterCriteria list \<Rightarrow>
     't Searchable_scheme list \<times> 'c FilterCriteria list" where
  "applyFilters filterRegistry [] (filteredItems, applied) = (filteredItems, applied)"
| "applyFilters filterRegistry (f # fs) (filteredItems, applied) =
     (case map_of filterRegistry (filter_type f) of
        Some filterDef \<Rightarrow>
          applyFilters filterRegistry fs (applyFilter filterDef filteredItems f, applied @ [f])
      | None \<Rightarrow> applyFilters filterRegistry fs (filteredItems, applied))"

definition matchesSearchTerm :: "jsstring \<Rightarrow> 't Searchable_scheme \<Rightarrow> bool" where
  "matchesSearchTerm term it \<longleftrightarrow>
     js_includes (js_toLowerCase (name it)) term \<or>
     (case category it of None \<Rightarrow> False | Some c \<Rightarrow> js_includes (js_toLowerCase c) term)"

definition compareItems ::
    "'t Runtime \<Rightarrow> jsstring \<Rightarrow> SortOrder option \<Rightarrow>
     't Searchable_scheme \<Rightarrow> 't Searchable_scheme \<Rightarrow> int" where
  "compareItems rt key order a b =
     (if order = Some Desc then (if property_gt rt key b a then 1 else -1)
      else (if property_gt rt key a b then 1 else -1))"

definition executeQuery ::
    "'t Runtime \<Rightarrow> (jsstring \<times> ('t, 'c) FilterDefinition) list \<Rightarrow>
     't Searchable_scheme list \<Rightarrow> 'c QueryOptions \<Rightarrow> ('t, 'c) QueryResult" where
  "executeQuery rt filterRegistry its options =
     (let filteredItems = its;
          filteredItems =
            (case searchTerm options of
               None \<Rightarrow> filteredItems
             | Some t \<Rightarrow>
                 if t \<noteq> [] \<and> js_trim t \<noteq> []
                 then filter (matchesSearchTerm (js_trim (js_toLowerCase t))) filteredItems
                 else filteredItems);
          (filteredItems, applied) =
            (case filters options of
               None \<Rightarrow> (filteredItems, [])
             | Some fs \<Rightarrow> applyFilters filterRegistry fs (filteredItems, []));
          filteredItems =
            (case sortBy options of
               None \<Rightarrow> filteredItems
             | Some key \<Rightarrow>
                 if key \<noteq> [] then array_sort rt (compareItems rt key (sortOrder options)) filteredItems
                 else filteredItems)
      in \<lparr>result_items = filteredItems, totalCount = length filteredItems,
          appliedFilters = applied\<rparr>)"

section \<open>Example data\<close>

text \<open>The two-item catalog of the end-to-end scenarios.\<close>

definition catalog :: "Searchable list" where
  "catalog =
     [\<lparr>item_id = str ''1'', name = str ''Zanahoria'', category = Some (str ''Verduras'')\<rparr>,
      \<lparr>item_id = str ''2'', name = str ''Aguacate'', category = Some (str ''Frutas'')\<rparr>]"

text \<open>The same catalog with the second item under the canonical term of the vocabulary.\<close>

definition catalog_avocado :: "Searchable list" where
  "catalog_avocado =
     [\<lparr>item_id = str ''1'', name = str ''Zanahoria'', category = Some (str ''Verduras'')\<rparr>,
      \<lparr>item_id = str ''2'', name = str ''Avocado'', category = Some (str ''Frutas'')\<rparr>]"

text \<open>The default of the parameter \<open>options\<close> of \<open>search\<close>: \<open>{ threshold: 0.4 }\<close>.\<close>

definition default_options :: SearchOptions where
  "default_options = \<lparr>threshold = Some 0.4, minScore = None, maxResults = None\<rparr>"

text \<open>
  Two stand-ins for the library in the examples: an index that finds nothing, and one
  that reports the first item at distance \<open>0.25\<close>.
\<close>

definition Fuse_no_match :: "'t Fuse" where
  "Fuse_no_match its config query = []"

definition Fuse_first_item :: "'t Fuse" where
  "Fuse_first_item its config query =
     map (\<lambda>it. \<lparr>fuse_item = it, fuse_score = Some 0.25, fuse_matches = None\<rparr>) (take 1 its)"

text \<open>
  A runtime for the examples: insertion under the comparator, and the comparison of
  names by code units for the key \<open>name\<close>.
\<close>

fun insert_by :: "('a \<Rightarrow> 'a \<Rightarrow> int) \<Rightarrow> 'a \<Rightarrow> 'a list \<Rightarrow> 'a list" where
  "insert_by cmp x [] = [x]"
| "insert_by cmp x (y # ys) = (if cmp x y \<le> 0 then x # y # ys else y # insert_by cmp x ys)"

definition example_runtime :: "'t Runtime" where
  "example_runtime =
     \<lparr>array_sort = (\<lambda>cmp xs. foldr (insert_by cmp) xs []),
      property_gt = (\<lambda>key a b. key = str ''name'' \<and> lexordp (<) (name b) (name a))\<rparr>"

text \<open>A registry with one filter: the items of the category the criterion names.\<close>

definition category_filter :: "('t, jsstring) FilterDefinition" where
  "category_filter =
     \<lparr>definition_type = str ''category'',
      applyFilter = (\<lambda>its f. filter (\<lambda>it. category it = Some (payload f)) its)\<rparr>"

definition example_registry :: "(jsstring \<times> ('t, jsstring) FilterDefinition) list" where
  "example_registry = registerFilter [] category_filter"

text \<open>An engine over the catalog, options with both limits, and a query with two filters.\<close>

definition example_engine :: "unit HybridSearchEngine" where
  "example_engine = new_HybridSearchEngine Fuse_first_item catalog"

definition limited_options :: SearchOptions where
  "limited_options = \<lparr>threshold = Some 0.4, minScore = Some 0.5, maxResults = Some 1\<rparr>"

definition unknown_criteria :: "jsstring FilterCriteria" where
  "unknown_criteria = \<lparr>filter_type = str ''price'', payload = str ''low''\<rparr>"

definition fruit_criteria :: "jsstring FilterCriteria" where
  "fruit_criteria = \<lparr>filter_type = str ''category'', payload = str ''Frutas''\<rparr>"

definition example_query :: "jsstring QueryOptions" where
  "example_query = \<lparr>searchTerm = None, filters = None, sortBy = None, sortOrder = None\<rparr>"

section \<open>Invariants used in the proofs\<close>

text \<open>
  The result map of the merging search: its keys are distinct, every result is stored
  under the id of its item, and no score is negative.
\<close>

definition keyed_by_id :: "'t ResultMap \<Rightarrow> bool" where
  "keyed_by_id m \<longleftrightarrow>
     distinct (map fst m) \<and> list_all (\<lambda>(k, r). item_id (item r) = k \<and> 0 \<le> score r) m"

section \<open>The empty query\<close>

lemma js_trim_white:
  assumes "\<forall>c\<in>set s. isWhiteSpace c"
  shows "js_trim s = []"
proof -
  from assms have blank: "dropWhile isWhiteSpace s = []"
    by (induction s) auto
  show ?thesis
    unfolding js_trim_def blank by simp
qed

text \<open>
  Claim C7. For every engine (every item set, every Fuse index) and every options, a
  query that is empty or made of white space only gets the empty result list, from the
  hierarchical \<open>search\<close> and from the merging one alike.
\<close>

theorem search_blank_query_empty:
  assumes "\<forall>c\<in>set query. isWhiteSpace c"
  shows "search e query options = [] \<and> search_merged e query options = []"
  using js_trim_white [OF assms] by (simp add: search_def search_merged_def)

theorem search_blank_query_empty_witness:
  "search (new_HybridSearchEngine Fuse_first_item catalog) (str ''   '') default_options = [] \<and>
   search_merged (new_HybridSearchEngine Fuse_first_item catalog) (str ''   '') default_options = [] \<and>
   search (new_HybridSearchEngine Fuse_first_item catalog) [] default_options = [] \<and>
   search_merged (new_HybridSearchEngine Fuse_first_item catalog) [] default_options = []"
proof -
  have blank: "\<forall>c\<in>set (str ''   ''). isWhiteSpace c"
    by (simp add: isWhiteSpace_def)
  have none: "\<forall>c\<in>set ([] :: jsstring). isWhiteSpace c"
    by simp
  from search_blank_query_empty [OF blank] search_blank_query_empty [OF none]
  show ?thesis by blast
qed

section \<open>Sorting and limiting\<close>

lemma distinct_map_insort_key:
  "distinct (map f (insort_key k x xs)) = distinct (map f (x # xs))"
  by (induction xs) (auto simp: set_insort_key)

lemma distinct_map_sort_key: "distinct (map f (sort_key k xs)) = distinct (map f xs)"
  by (induction xs) (simp_all add: distinct_map_insort_key)

lemma distinct_map_take: "distinct (map f xs) \<Longrightarrow> distinct (map f (take n xs))"
  by (simp add: take_map [symmetric])

lemma slice0_take: "\<exists>k. slice0 xs n = take k xs"
  by (auto simp: slice0_def Let_def)

lemma limitAndSort_take:
  "\<exists>k. limitAndSort rs options =
     take k (sortByScore (filter (\<lambda>r. \<not> truthy (minScore options) \<or> the (minScore options) \<le> score r) rs))"
proof (cases "truthy (maxResults options)")
  case True
  then show ?thesis
    using slice0_take by (simp add: limitAndSort_def)
next
  case False
  then have "limitAndSort rs options =
     take (length rs) (sortByScore (filter (\<lambda>r. \<not> truthy (minScore options) \<or> the (minScore options) \<le> score r) rs))"
    by (simp add: limitAndSort_def sortByScore_def)
  then show ?thesis ..
qed

lemma limitAndSort_distinct:
  assumes "distinct (map f rs)"
  shows "distinct (map f (limitAndSort rs options))"
proof -
  obtain k where "limitAndSort rs options =
     take k (sortByScore (filter (\<lambda>r. \<not> truthy (minScore options) \<or> the (minScore options) \<le> score r) rs))"
    using limitAndSort_take by blast
  with assms show ?thesis
    by (simp add: sortByScore_def distinct_map_take distinct_map_sort_key distinct_map_filter)
qed

lemma sortByScore_sorted: "sorted_wrt (\<lambda>a b. score b \<le> score a) (sortByScore rs)"
proof -
  have "sorted (map (\<lambda>r. - score r) (sort_key (\<lambda>r. - score r) rs))"
    by (rule sorted_sort_key)
  then show ?thesis
    by (simp add: sortByScore_def sorted_map)
qed

lemma limitAndSort_sorted: "sorted_wrt (\<lambda>a b. score b \<le> score a) (limitAndSort rs options)"
proof -
  obtain k where "limitAndSort rs options =
     take k (sortByScore (filter (\<lambda>r. \<not> truthy (minScore options) \<or> the (minScore options) \<le> score r) rs))"
    using limitAndSort_take by blast
  then show ?thesis
    by (simp add: sortByScore_sorted sorted_wrt_take)
qed

lemma limitAndSort_minScore:
  assumes "minScore options = Some m" and "\<forall>r\<in>set rs. 0 \<le> score r"
    and "r \<in> set (limitAndSort rs options)"
  shows "m \<le> score r"
proof -
  obtain k where "limitAndSort rs options =
     take k (sortByScore (filter (\<lambda>r. \<not> truthy (minScore options) \<or> the (minScore options) \<le> score r) rs))"
    using limitAndSort_take by blast
  with assms(3) have "r \<in> set (filter (\<lambda>r. \<not> truthy (minScore options) \<or> the (minScore options) \<le> score r) rs)"
    by (auto simp: sortByScore_def dest: in_set_takeD)
  with assms(1,2) show ?thesis
    by (auto simp: truthy_def)
qed

lemma limitAndSort_maxResults:
  assumes "maxResults options = Some n" and "0 < n"
  shows "limitAndSort rs options = take (nat \<lfloor>n\<rfloor>) (limitAndSort rs (options\<lparr>maxResults := None\<rparr>))"
    and "real (length (limitAndSort rs options)) \<le> n"
proof -
  from assms have k: "0 \<le> \<lfloor>n\<rfloor>"
    by simp
  from assms k show eq: "limitAndSort rs options = take (nat \<lfloor>n\<rfloor>) (limitAndSort rs (options\<lparr>maxResults := None\<rparr>))"
    by (simp add: limitAndSort_def truthy_def slice0_def Let_def)
  have "real (length (limitAndSort rs options)) \<le> real (nat \<lfloor>n\<rfloor>)"
    unfolding eq by simp
  also have "\<dots> \<le> n"
    using k by (simp add: of_nat_nat)
  finally show "real (length (limitAndSort rs options)) \<le> n" .
qed

section \<open>The results of the strategies\<close>

lemma getExactMatchesOf_items:
  "map item (getExactMatchesOf its query n) =
   filter (\<lambda>it. normalize_text DEFAULT_OPTIONS (name it) = n \<or>
                 normalize_text DEFAULT_OPTIONS (category_or_empty it) = n) its"
  by (induction its) (simp_all add: Let_def)

lemma getExactMatchesOf_score: "r \<in> set (getExactMatchesOf its query n) \<Longrightarrow> 0 \<le> score r"
  by (induction its) (auto simp: Let_def split: if_splits)

lemma partialMatch_score: "partialMatch it n = Some (s, terms) \<Longrightarrow> 0 < s"
  by (simp add: partialMatch_def Let_def split: if_splits)

lemma getPartialMatchesOf_items:
  "map item (getPartialMatchesOf its n) = filter (\<lambda>it. partialMatch it n \<noteq> None) its"
  by (induction its) (auto split: option.splits)

lemma getPartialMatchesOf_score: "r \<in> set (getPartialMatchesOf its n) \<Longrightarrow> 0 \<le> score r"
  by (induction its) (auto split: option.splits dest: partialMatch_score)

lemma fuzzyScoreOf_nonneg: "0 \<le> fuzzyScoreOf f"
  by (simp add: fuzzyScoreOf_def Let_def)

lemma getFuzzyMatches_items: "map item (getFuzzyMatches e query options) = map fuse_item (fuse e query)"
  by (simp add: getFuzzyMatches_def comp_def)

lemma getFuzzyMatches_score: "r \<in> set (getFuzzyMatches e query options) \<Longrightarrow> 0 \<le> score r"
  by (auto simp: getFuzzyMatches_def fuzzyScoreOf_nonneg)

section \<open>The result map of the merging search\<close>

lemma update_keyed:
  assumes "keyed_by_id m" and "item_id (item r) = k" and "0 \<le> score r"
  shows "keyed_by_id (AList.update k r m)"
proof -
  have "list_all P (AList.update k r m)" if "list_all P m" and "P (k, r)" for P
    using that by (induction m) (auto)
  with assms show ?thesis
    by (simp add: keyed_by_id_def distinct_update)
qed

lemma exactSearchOf_keyed:
  "keyed_by_id m \<Longrightarrow> keyed_by_id (exactSearchOf its query n m)"
  by (induction its arbitrary: m) (simp_all add: Let_def update_keyed)

lemma fuzzySearchOf_keyed:
  "keyed_by_id m \<Longrightarrow> keyed_by_id (fuzzySearchOf fs query m)"
  by (induction fs arbitrary: m) (simp_all add: Let_def update_keyed fuzzyScoreOf_nonneg)

lemma partialSearchOf_keyed:
  "keyed_by_id m \<Longrightarrow> keyed_by_id (partialSearchOf its n m)"
proof (induction its arbitrary: m)
  case Nil
  then show ?case by simp
next
  case (Cons it its)
  show ?case
  proof (cases "partialMatch it n")
    case None
    with Cons show ?thesis by simp
  next
    case (Some p)
    obtain s terms where p: "p = (s, terms)"
      by (cases p)
    with Some have "0 \<le> s"
      using partialMatch_score [of it n s terms] by simp
    with Cons Some p show ?thesis
      by (simp add: update_keyed)
  qed
qed

lemma keyed_ids: "keyed_by_id m \<Longrightarrow> map (item_id \<circ> item) (map snd m) = map fst m"
  by (induction m) (auto simp: keyed_by_id_def)

lemma keyed_scores: "keyed_by_id m \<Longrightarrow> r \<in> set (map snd m) \<Longrightarrow> 0 \<le> score r"
  by (auto simp: keyed_by_id_def list_all_iff)

lemma search_merged_limitAndSort:
  "search_merged e query options =
     (if query = [] \<or> length (js_trim query) = 0 then []
      else limitAndSort
             (map snd
                (partialSearch e (normalize_text DEFAULT_OPTIONS query)
                   (fuzzySearch e query options
                      (exactSearch e query (normalize_text DEFAULT_OPTIONS query) []))))
             options)"
  by (simp add: search_merged_def limitAndSort_def Let_def)

lemma merged_results_keyed:
  "keyed_by_id
     (partialSearch e n (fuzzySearch e query options (exactSearch e query n [])))"
proof -
  have "keyed_by_id ([] :: 't ResultMap)"
    by (simp add: keyed_by_id_def)
  then show ?thesis
    unfolding partialSearch_def fuzzySearch_def exactSearch_def
    by (intro partialSearchOf_keyed fuzzySearchOf_keyed exactSearchOf_keyed)
qed

lemma limitAndSort_Nil: "limitAndSort [] options = []"
  by (simp add: limitAndSort_def sortByScore_def slice0_def Let_def)

lemma search_ranked:
  obtains rs where "\<And>options'. search e query options' = limitAndSort rs options'"
    and "\<forall>r\<in>set rs. 0 \<le> score r"
    and "distinct (map item_id (items e)) \<Longrightarrow>
         distinct (map (item_id \<circ> fuse_item) (fuse e query)) \<Longrightarrow>
         distinct (map (item_id \<circ> item) rs)"
proof (cases "query = [] \<or> length (js_trim query) = 0")
  case True
  then have "search e query options' = limitAndSort [] options'" for options'
    by (simp add: search_def limitAndSort_Nil)
  then show ?thesis
    by (intro that [of "[]"]) simp_all
next
  case False
  let ?n = "normalize_text DEFAULT_OPTIONS query"
  let ?ex = "getExactMatches e query ?n"
  let ?fu = "getFuzzyMatches e query default_options"
  let ?pa = "getPartialMatches e ?n"
  have ids: "map (item_id \<circ> item) rs = map item_id (map item rs)" for rs :: "'a SearchResult list"
    by simp
  have same: "getFuzzyMatches e query options' = ?fu" for options'
    by (simp add: getFuzzyMatches_def)
  show ?thesis
  proof (cases "length ?ex > 0")
    case True
    with False have eq: "search e query options' = limitAndSort ?ex options'" for options'
      by (simp add: search_def Let_def)
    have sc: "\<forall>r\<in>set ?ex. 0 \<le> score r"
      by (auto simp: getExactMatches_def dest: getExactMatchesOf_score)
    have "distinct (map (item_id \<circ> item) ?ex)" if "distinct (map item_id (items e))"
      unfolding ids getExactMatches_def getExactMatchesOf_items
      using that by (rule distinct_map_filter)
    with eq sc show ?thesis
      by (intro that [of ?ex]) auto
  next
    case noexact: False
    show ?thesis
    proof (cases "length ?fu > 0")
      case True
      with False noexact
      have eq: "search e query options' = limitAndSort ?fu options'" for options'
        by (simp add: search_def Let_def same [of options'])
      have sc: "\<forall>r\<in>set ?fu. 0 \<le> score r"
        by (auto dest: getFuzzyMatches_score)
      have "distinct (map (item_id \<circ> item) ?fu)"
        if "distinct (map (item_id \<circ> fuse_item) (fuse e query))"
        using that unfolding ids getFuzzyMatches_items by simp
      with eq sc show ?thesis
        by (intro that [of ?fu]) auto
    next
      case nofuzzy: False
      with False noexact
      have eq: "search e query options' = limitAndSort ?pa options'" for options'
        by (simp add: search_def Let_def same [of options'])
      have sc: "\<forall>r\<in>set ?pa. 0 \<le> score r"
        by (auto simp: getPartialMatches_def dest: getPartialMatchesOf_score)
      have "distinct (map (item_id \<circ> item) ?pa)" if "distinct (map item_id (items e))"
        unfolding ids getPartialMatches_def getPartialMatchesOf_items
        using that by (rule distinct_map_filter)
      with eq sc show ?thesis
        by (intro that [of ?pa]) auto
    qed
  qed
qed

lemma search_merged_ranked:
  obtains rs where "\<And>options'. search_merged e query options' = limitAndSort rs options'"
    and "\<forall>r\<in>set rs. 0 \<le> score r"
    and "distinct (map (item_id \<circ> item) rs)"
proof (cases "query = [] \<or> length (js_trim query) = 0")
  case True
  then have "search_merged e query options' = limitAndSort [] options'" for options'
    by (simp add: search_merged_def limitAndSort_Nil)
  then show ?thesis
    by (intro that [of "[]"]) simp_all
next
  case False
  let ?n = "normalize_text DEFAULT_OPTIONS query"
  let ?m = "partialSearch e ?n (fuzzySearch e query default_options (exactSearch e query ?n []))"
  have same: "fuzzySearch e query options' = fuzzySearch e query default_options" for options'
    by (rule ext) (simp add: fuzzySearch_def)
  from False have eq: "search_merged e query options' = limitAndSort (map snd ?m) options'"
    for options'
    by (simp add: search_merged_limitAndSort same [of options'])
  have keyed: "keyed_by_id ?m"
    by (rule merged_results_keyed)
  then have sc: "\<forall>r\<in>set (map snd ?m). 0 \<le> score r"
    using keyed_scores by blast
  from keyed have "distinct (map (item_id \<circ> item) (map snd ?m))"
    by (simp only: keyed_ids) (simp add: keyed_by_id_def)
  with eq sc show ?thesis
    by (intro that [of "map snd ?m"]) auto
qed

lemma ranked_properties:
  assumes eq: "\<And>options'. f options' = limitAndSort rs options'"
    and sc: "\<forall>r\<in>set rs. 0 \<le> score r"
  shows "sorted_wrt (\<lambda>a b. score b \<le> score a) (f options)"
    and "minScore options = Some m \<Longrightarrow> r \<in> set (f options) \<Longrightarrow> m \<le> score r"
    and "maxResults options = Some n \<Longrightarrow> 0 < n \<Longrightarrow>
         real (length (f options)) \<le> n \<and>
         f options = take (nat \<lfloor>n\<rfloor>) (f (options\<lparr>maxResults := None\<rparr>))"
  using limitAndSort_sorted [of rs options] limitAndSort_minScore [OF _ sc, of options m r]
    limitAndSort_maxResults [of options n rs]
  by (simp_all add: eq)

section \<open>One result for each item\<close>

text \<open>
  Claim C1. No search returns two results for one item id. The merging search keys its
  results by id, so this holds for every engine. The hierarchical search returns the
  results of one strategy: there it holds for an item set, that is, items of distinct
  ids, over which Fuse reports each item at most once.
\<close>

theorem search_no_duplicate_ids:
  "distinct (map (item_id \<circ> item) (search_merged e query options)) \<and>
   (distinct (map item_id (items e)) \<and> distinct (map (item_id \<circ> fuse_item) (fuse e query)) \<longrightarrow>
      distinct (map (item_id \<circ> item) (search e query options)))"
proof (intro conjI impI)
  obtain rs where "search_merged e query options = limitAndSort rs options"
    and "distinct (map (item_id \<circ> item) rs)"
    using search_merged_ranked [of e query] by metis
  then show "distinct (map (item_id \<circ> item) (search_merged e query options))"
    by (simp add: limitAndSort_distinct)
next
  assume unique: "distinct (map item_id (items e)) \<and> distinct (map (item_id \<circ> fuse_item) (fuse e query))"
  obtain rs where "search e query options = limitAndSort rs options"
    and "distinct (map item_id (items e)) \<Longrightarrow>
         distinct (map (item_id \<circ> fuse_item) (fuse e query)) \<Longrightarrow>
         distinct (map (item_id \<circ> item) rs)"
    using search_ranked [of e query] by metis
  with unique show "distinct (map (item_id \<circ> item) (search e query options))"
    by (simp add: limitAndSort_distinct)
qed

text \<open>The hypotheses and both conclusions on the example engine, for the query \<open>a\<close>.\<close>

theorem search_no_duplicate_ids_witness:
  "distinct (map item_id (items example_engine)) \<and>
   distinct (map (item_id \<circ> fuse_item) (fuse example_engine (str ''a''))) \<and>
   distinct (map (item_id \<circ> item) (search example_engine (str ''a'') default_options)) \<and>
   distinct (map (item_id \<circ> item) (search_merged example_engine (str ''a'') default_options)) \<and>
   length (search_merged example_engine (str ''a'') default_options) = 2"
proof -
  have items: "distinct (map item_id (items example_engine))"
    by code_simp
  have found: "distinct (map (item_id \<circ> fuse_item) (fuse example_engine (str ''a'')))"
    by code_simp
  have two: "length (search_merged example_engine (str ''a'') default_options) = 2"
    by code_simp
  from search_no_duplicate_ids [of example_engine "str ''a''" default_options] items found two
  show ?thesis by blast
qed

section \<open>Order, minimum score and limit\<close>

text \<open>
  \<open>maxResults\<close> is tested for truth before it limits the list, so a limit of \<open>0\<close>
  leaves the list whole: the exact match for \<open>zanahoria\<close> (returned before Fuse is
  consulted) is still there under \<open>maxResults = 0\<close>.
\<close>

theorem search_limit_zero_counterexample:
  "maxResults (default_options\<lparr>maxResults := Some 0\<rparr>) = Some 0 \<and>
   length (search (new_HybridSearchEngine Fuse_no_match catalog) (str ''zanahoria'')
             (default_options\<lparr>maxResults := Some 0\<rparr>)) = 1 \<and>
   \<not> real (length (search (new_HybridSearchEngine Fuse_no_match catalog) (str ''zanahoria'')
                    (default_options\<lparr>maxResults := Some 0\<rparr>))) \<le> 0"
  by code_simp

text \<open>
  Claim C6, amended. The results of both searches are sorted by score, best first; with
  \<open>minScore\<close> set, no result scores below it; with \<open>maxResults\<close> set to a positive
  number \<open>n\<close>, there are at most \<open>n\<close> results, the first \<open>\<lfloor>n\<rfloor>\<close> of the list the
  same search returns without a limit.
\<close>

theorem search_sorted_and_limited:
  "sorted_wrt (\<lambda>a b. score b \<le> score a) (search e query options) \<and>
   sorted_wrt (\<lambda>a b. score b \<le> score a) (search_merged e query options) \<and>
   (minScore options = Some m \<longrightarrow>
      (\<forall>r\<in>set (search e query options) \<union> set (search_merged e query options). m \<le> score r)) \<and>
   (maxResults options = Some n \<and> 0 < n \<longrightarrow>
      real (length (search e query options)) \<le> n \<and>
      search e query options = take (nat \<lfloor>n\<rfloor>) (search e query (options\<lparr>maxResults := None\<rparr>)) \<and>
      real (length (search_merged e query options)) \<le> n \<and>
      search_merged e query options =
        take (nat \<lfloor>n\<rfloor>) (search_merged e query (options\<lparr>maxResults := None\<rparr>)))"
proof -
  obtain rs where rs: "\<And>options'. search e query options' = limitAndSort rs options'"
    "\<forall>r\<in>set rs. 0 \<le> score r"
    using search_ranked [of e query] by metis
  obtain ms where ms: "\<And>options'. search_merged e query options' = limitAndSort ms options'"
    "\<forall>r\<in>set ms. 0 \<le> score r"
    using search_merged_ranked [of e query] by metis
  note hierarchical = ranked_properties [of "search e query", OF rs]
  note merged = ranked_properties [of "search_merged e query", OF ms]
  show ?thesis
    using hierarchical(1) [of options] merged(1) [of options]
      hierarchical(2) [of options m] merged(2) [of options m]
      hierarchical(3) [of options n] merged(3) [of options n]
    by blast
qed

text \<open>Both limits at work on the example engine.\<close>

theorem search_sorted_and_limited_witness:
  "minScore limited_options = Some 0.5 \<and> maxResults limited_options = Some 1 \<and>
   length (search_merged example_engine (str ''a'') (limited_options\<lparr>maxResults := None\<rparr>)) = 2 \<and>
   search_merged example_engine (str ''a'') limited_options =
     take 1 (search_merged example_engine (str ''a'') (limited_options\<lparr>maxResults := None\<rparr>)) \<and>
   search example_engine (str ''a'') limited_options =
     take 1 (search example_engine (str ''a'') (limited_options\<lparr>maxResults := None\<rparr>)) \<and>
   list_all (\<lambda>r. 0.5 \<le> score r) (search_merged example_engine (str ''a'') limited_options) \<and>
   sorted_wrt (\<lambda>a b. score b \<le> score a) (search_merged example_engine (str ''a'') limited_options)"
proof -
  have lo: "minScore limited_options = Some 0.5"
    by (simp add: limited_options_def)
  have hi: "maxResults limited_options = Some 1 \<and> (0::real) < 1"
    by (simp add: limited_options_def)
  have two: "length (search_merged example_engine (str ''a'') (limited_options\<lparr>maxResults := None\<rparr>)) = 2"
    by code_simp
  note ranked = search_sorted_and_limited [of example_engine "str ''a''" limited_options "0.5" 1]
  have floor: "nat \<lfloor>1::real\<rfloor> = 1"
    by simp
  from ranked hi
  have limited:
    "search_merged example_engine (str ''a'') limited_options =
       take (nat \<lfloor>1::real\<rfloor>)
         (search_merged example_engine (str ''a'') (limited_options\<lparr>maxResults := None\<rparr>))"
    "search example_engine (str ''a'') limited_options =
       take (nat \<lfloor>1::real\<rfloor>)
         (search example_engine (str ''a'') (limited_options\<lparr>maxResults := None\<rparr>))"
    by blast+
  from ranked lo
  have above: "\<forall>r\<in>set (search_merged example_engine (str ''a'') limited_options). 0.5 \<le> score r"
    by blast
  from ranked
  have sorted: "sorted_wrt (\<lambda>a b. score b \<le> score a)
      (search_merged example_engine (str ''a'') limited_options)"
    by blast
  from lo hi two limited above sorted show ?thesis
    unfolding list_all_iff floor by blast
qed

section \<open>The index as built\<close>

text \<open>
  The search index \<open>buildSearchIndex\<close> computes from the vocabulary: 82 keys in
  insertion order. The key \<open>banana\<close> is written twice, by the canonical term and by
  the synonym of the same spelling, and keeps the entry of the synonym.
\<close>

lemma searchIndex_built:
  "SynonymService_searchIndex =
     [
      (str ''avocado'',
       \<lparr>canonical = str ''avocado'', productId = str ''avocado_001'', confidence = 1.0,
        regionInfo = None\<rparr>),
      (str ''palta'',
       \<lparr>canonical = str ''avocado'', productId = str ''avocado_001'', confidence = 0.9,
        regionInfo = Some \<lparr>region = str ''AR'', country = str ''Argentina'', language = Some (str ''es'')\<rparr>\<rparr>),
      (str ''aguacate'',
       \<lparr>canonical = str ''avocado'', productId = str ''avocado_001'', confidence = 0.9,
        regionInfo = Some \<lparr>region = str ''MX'', country = str ''M'' @ [0xE9] @ str ''xico'', language = Some (str ''es'')\<rparr>\<rparr>),
      (str ''sweet potato'',
       \<lparr>canonical = str ''sweet potato'', productId = str ''sweet_potato_006'', confidence = 1.0,
        regionInfo = None\<rparr>),
      (str ''batata'',
       \<lparr>canonical = str ''sweet potato'', productId = str ''sweet_potato_006'', confidence = 0.9,
        regionInfo = Some \<lparr>region = str ''AR'', country = str ''Argentina'', language = Some (str ''es'')\<rparr>\<rparr>),
      (str ''boniato'',
       \<lparr>canonical = str ''sweet potato'', productId = str ''sweet_potato_006'', confidence = 0.9,
        regionInfo = Some \<lparr>region = str ''ES'', country = str ''Espa'' @ [0xF1] @ str ''a'', language = Some (str ''es'')\<rparr>\<rparr>),
      (str ''camote'',
       \<lparr>canonical = str ''sweet potato'', productId = str ''sweet_potato_006'', confidence = 0.9,
        regionInfo = Some \<lparr>region = str ''MX'', country = str ''M'' @ [0xE9] @ str ''xico'', language = Some (str ''es'')\<rparr>\<rparr>),
      ([0xF1] @ str ''ame'',
       \<lparr>canonical = str ''sweet potato'', productId = str ''sweet_potato_006'', confidence = 0.9,
        regionInfo = Some \<lparr>region = str ''CO'', country = str ''Colombia'', language = Some (str ''es'')\<rparr>\<rparr>),
      (str ''papa dulce'',
       \<lparr>canonical = str ''sweet potato'', productId = str ''sweet_potato_006'', confidence = 0.9,
        regionInfo = Some \<lparr>region = str ''CL'', country = str ''Chile'', language = Some (str ''es'')\<rparr>\<rparr>),
      (str ''potato chips'',
       \<lparr>canonical = str ''potato chips'', productId = str ''chips_009'', confidence = 1.0,
        regionInfo = None\<rparr>),
      (str ''papas fritas'',
       \<lparr>canonical = str ''potato chips'', productId = str ''chips_009'', confidence = 0.9,
        regionInfo = Some \<lparr>region = str ''MX'', country = str ''M'' @ [0xE9] @ str ''xico'', language = Some (str ''es'')\<rparr>\<rparr>),
      (str ''patatas fritas'',
       \<lparr>canonical = str ''potato chips'', productId = str ''chips_009'', confidence = 0.9,
        regionInfo = Some \<lparr>region = str ''ES'', country = str ''Espa'' @ [0xF1] @ str ''a'', language = Some (str ''es'')\<rparr>\<rparr>),
      (str ''papitas'',
       \<lparr>canonical = str ''potato chips'', productId = str ''chips_009'', confidence = 0.9,
        regionInfo = Some \<lparr>region = str ''AR'', country = str ''Argentina'', language = Some (str ''es'')\<rparr>\<rparr>),
      (str ''chips'',
       \<lparr>canonical = str ''potato chips'', productId = str ''chips_009'', confidence = 0.9,
        regionInfo = Some \<lparr>region = str ''US'', country = str ''Estados Unidos'', language = Some (str ''es'')\<rparr>\<rparr>),
      (str ''broccoli'',
       \<lparr>canonical = str ''broccoli'', productId = str ''broccoli_001'', confidence = 1.0,
        regionInfo = None\<rparr>),
      (str ''br'' @ [0xF3] @ str ''coli'',
       \<lparr>canonical = str ''broccoli'', productId = str ''broccoli_001'', confidence = 0.9,
        regionInfo = Some \<lparr>region = str ''MX'', country = str ''M'' @ [0xE9] @ str ''xico'', language = Some (str ''es'')\<rparr>\<rparr>),
      (str ''br'' @ [0xE9] @ str ''col'',
       \<lparr>canonical = str ''broccoli'', productId = str ''broccoli_001'', confidence = 0.9,
        regionInfo = Some \<lparr>region = str ''ES'', country = str ''Espa'' @ [0xF1] @ str ''a'', language = Some (str ''es'')\<rparr>\<rparr>),
      (str ''kale'',
       \<lparr>canonical = str ''kale'', productId = str ''kale_005'', confidence = 1.0,
        regionInfo = None\<rparr>),
      (str ''col rizada'',
       \<lparr>canonical = str ''kale'', productId = str ''kale_005'', confidence = 0.9,
        regionInfo = Some \<lparr>region = str ''ES'', country = str ''Espa'' @ [0xF1] @ str ''a'', language = Some (str ''es'')\<rparr>\<rparr>),
      (str ''col crespa'',
       \<lparr>canonical = str ''kale'', productId = str ''kale_005'', confidence = 0.9,
        regionInfo = Some \<lparr>region = str ''AR'', country = str ''Argentina'', language = Some (str ''es'')\<rparr>\<rparr>),
      (str ''berza'',
       \<lparr>canonical = str ''kale'', productId = str ''kale_005'', confidence = 0.9,
        regionInfo = Some \<lparr>region = str ''ES'', country = str ''Espa'' @ [0xF1] @ str ''a'', language = Some (str ''es'')\<rparr>\<rparr>),
      (str ''acelga silvestre'',
       \<lparr>canonical = str ''kale'', productId = str ''kale_005'', confidence = 0.9,
        regionInfo = Some \<lparr>region = str ''EC'', country = str ''Ecuador'', language = Some (str ''es'')\<rparr>\<rparr>),
      (str ''chia seeds'',
       \<lparr>canonical = str ''chia seeds'', productId = str ''chia_seeds_008'', confidence = 1.0,
        regionInfo = None\<rparr>),
      (str ''semillas de ch'' @ [0xED] @ str ''a'',
       \<lparr>canonical = str ''chia seeds'', productId = str ''chia_seeds_008'', confidence = 0.9,
        regionInfo = Some \<lparr>region = str ''MX'', country = str ''M'' @ [0xE9] @ str ''xico'', language = Some (str ''es'')\<rparr>\<rparr>),
      (str ''ch'' @ [0xED] @ str ''a'',
       \<lparr>canonical = str ''chia seeds'', productId = str ''chia_seeds_008'', confidence = 0.9,
        regionInfo = Some \<lparr>region = str ''MX'', country = str ''M'' @ [0xE9] @ str ''xico'', language = Some (str ''es'')\<rparr>\<rparr>),
      (str ''greek yogurt'',
       \<lparr>canonical = str ''greek yogurt'', productId = str ''greek_yogurt_007'', confidence = 1.0,
        regionInfo = None\<rparr>),
      (str ''yogur griego'',
       \<lparr>canonical = str ''greek yogurt'', productId = str ''greek_yogurt_007'', confidence = 0.9,
        regionInfo = Some \<lparr>region = str ''ES'', country = str ''Espa'' @ [0xF1] @ str ''a'', language = Some (str ''es'')\<rparr>\<rparr>),
      (str ''yogurt griego'',
       \<lparr>canonical = str ''greek yogurt'', productId = str ''greek_yogurt_007'', confidence = 0.9,
        regionInfo = Some \<lparr>region = str ''MX'', country = str ''M'' @ [0xE9] @ str ''xico'', language = Some (str ''es'')\<rparr>\<rparr>),
      (str ''yoghurt griego'',
       \<lparr>canonical = str ''greek yogurt'', productId = str ''greek_yogurt_007'', confidence = 0.9,
        regionInfo = Some \<lparr>region = str ''AR'', country = str ''Argentina'', language = Some (str ''es'')\<rparr>\<rparr>),
      (str ''quinoa'',
       \<lparr>canonical = str ''quinoa'', productId = str ''quinoa_002'', confidence = 1.0,
        regionInfo = None\<rparr>),
      (str ''quinua'',
       \<lparr>canonical = str ''quinoa'', productId = str ''quinoa_002'', confidence = 0.9,
        regionInfo = Some \<lparr>region = str ''PE'', country = str ''Per'' @ [0xFA], language = Some (str ''es'')\<rparr>\<rparr>),
      (str ''kinoa'',
       \<lparr>canonical = str ''quinoa'', productId = str ''quinoa_002'', confidence = 0.9,
        regionInfo = Some \<lparr>region = str ''CL'', country = str ''Chile'', language = Some (str ''es'')\<rparr>\<rparr>),
      (str ''qu'' @ [0xED] @ str ''noa'',
       \<lparr>canonical = str ''quinoa'', productId = str ''quinoa_002'', confidence = 0.9,
        regionInfo = Some \<lparr>region = str ''ES'', country = str ''Espa'' @ [0xF1] @ str ''a'', language = Some (str ''es'')\<rparr>\<rparr>),
      (str ''blueberries'',
       \<lparr>canonical = str ''blueberries'', productId = str ''blueberries_005'', confidence = 1.0,
        regionInfo = None\<rparr>),
      (str ''ar'' @ [0xE1] @ str ''ndanos'',
       \<lparr>canonical = str ''blueberries'', productId = str ''blueberries_005'', confidence = 0.9,
        regionInfo = Some \<lparr>region = str ''ES'', country = str ''Espa'' @ [0xF1] @ str ''a'', language = Some (str ''es'')\<rparr>\<rparr>),
      (str ''ar'' @ [0xE1] @ str ''ndanos azules'',
       \<lparr>canonical = str ''blueberries'', productId = str ''blueberries_005'', confidence = 0.9,
        regionInfo = Some \<lparr>region = str ''ES'', country = str ''Espa'' @ [0xF1] @ str ''a'', language = Some (str ''es'')\<rparr>\<rparr>),
      (str ''mirtilo'',
       \<lparr>canonical = str ''blueberries'', productId = str ''blueberries_005'', confidence = 0.9,
        regionInfo = Some \<lparr>region = str ''AR'', country = str ''Argentina'', language = Some (str ''es'')\<rparr>\<rparr>),
      (str ''blueberry'',
       \<lparr>canonical = str ''blueberries'', productId = str ''blueberries_005'', confidence = 0.9,
        regionInfo = Some \<lparr>region = str ''US'', country = str ''Estados Unidos'', language = Some (str ''es'')\<rparr>\<rparr>),
      (str ''carrot'',
       \<lparr>canonical = str ''carrot'', productId = str ''carrot_004'', confidence = 1.0,
        regionInfo = None\<rparr>),
      (str ''zanahoria'',
       \<lparr>canonical = str ''carrot'', productId = str ''carrot_004'', confidence = 0.9,
        regionInfo = Some \<lparr>region = str ''ES'', country = str ''Espa'' @ [0xF1] @ str ''a'', language = Some (str ''es'')\<rparr>\<rparr>),
      (str ''carlota'',
       \<lparr>canonical = str ''carrot'', productId = str ''carrot_004'', confidence = 0.9,
        regionInfo = Some \<lparr>region = str ''VE'', country = str ''Venezuela'', language = Some (str ''es'')\<rparr>\<rparr>),
      (str ''daucus'',
       \<lparr>canonical = str ''carrot'', productId = str ''carrot_004'', confidence = 0.9,
        regionInfo = Some \<lparr>region = str ''ES'', country = str ''Espa'' @ [0xF1] @ str ''a'', language = Some (str ''es'')\<rparr>\<rparr>),
      (str ''banana'',
       \<lparr>canonical = str ''banana'', productId = str ''banana_010'', confidence = 0.9,
        regionInfo = Some \<lparr>region = str ''AR'', country = str ''Argentina'', language = Some (str ''es'')\<rparr>\<rparr>),
      (str ''banano'',
       \<lparr>canonical = str ''banana'', productId = str ''banana_010'', confidence = 0.9,
        regionInfo = Some \<lparr>region = str ''CO'', country = str ''Colombia'', language = Some (str ''es'')\<rparr>\<rparr>),
      (str ''pl'' @ [0xE1] @ str ''tano'',
       \<lparr>canonical = str ''banana'', productId = str ''banana_010'', confidence = 0.9,
        regionInfo = Some \<lparr>region = str ''MX'', country = str ''M'' @ [0xE9] @ str ''xico'', language = Some (str ''es'')\<rparr>\<rparr>),
      (str ''cambur'',
       \<lparr>canonical = str ''banana'', productId = str ''banana_010'', confidence = 0.9,
        regionInfo = Some \<lparr>region = str ''VE'', country = str ''Venezuela'', language = Some (str ''es'')\<rparr>\<rparr>),
      (str ''guineo'',
       \<lparr>canonical = str ''banana'', productId = str ''banana_010'', confidence = 0.9,
        regionInfo = Some \<lparr>region = str ''DO'', country = str ''Rep'' @ [0xFA] @ str ''blica Dominicana'', language = Some (str ''es'')\<rparr>\<rparr>),
      (str ''apple'',
       \<lparr>canonical = str ''apple'', productId = str ''apple_002'', confidence = 1.0,
        regionInfo = None\<rparr>),
      (str ''manzana'',
       \<lparr>canonical = str ''apple'', productId = str ''apple_002'', confidence = 0.9,
        regionInfo = Some \<lparr>region = str ''MX'', country = str ''M'' @ [0xE9] @ str ''xico'', language = Some (str ''es'')\<rparr>\<rparr>),
      (str ''poma'',
       \<lparr>canonical = str ''apple'', productId = str ''apple_002'', confidence = 0.9,
        regionInfo = Some \<lparr>region = str ''CL'', country = str ''Chile'', language = Some (str ''es'')\<rparr>\<rparr>),
      (str ''spinach'',
       \<lparr>canonical = str ''spinach'', productId = str ''spinach_003'', confidence = 1.0,
        regionInfo = None\<rparr>),
      (str ''espinaca'',
       \<lparr>canonical = str ''spinach'', productId = str ''spinach_003'', confidence = 0.9,
        regionInfo = Some \<lparr>region = str ''MX'', country = str ''M'' @ [0xE9] @ str ''xico'', language = Some (str ''es'')\<rparr>\<rparr>),
      (str ''espinafre'',
       \<lparr>canonical = str ''spinach'', productId = str ''spinach_003'', confidence = 0.9,
        regionInfo = Some \<lparr>region = str ''BR'', country = str ''Brasil'', language = Some (str ''es'')\<rparr>\<rparr>),
      (str ''cauliflower'',
       \<lparr>canonical = str ''cauliflower'', productId = str ''cauliflower_006'', confidence = 1.0,
        regionInfo = None\<rparr>),
      (str ''coliflor'',
       \<lparr>canonical = str ''cauliflower'', productId = str ''cauliflower_006'', confidence = 0.9,
        regionInfo = Some \<lparr>region = str ''MX'', country = str ''M'' @ [0xE9] @ str ''xico'', language = Some (str ''es'')\<rparr>\<rparr>),
      (str ''couve-flor'',
       \<lparr>canonical = str ''cauliflower'', productId = str ''cauliflower_006'', confidence = 0.9,
        regionInfo = Some \<lparr>region = str ''BR'', country = str ''Brasil'', language = Some (str ''es'')\<rparr>\<rparr>),
      (str ''brussels sprouts'',
       \<lparr>canonical = str ''brussels sprouts'', productId = str ''brussels_007'', confidence = 1.0,
        regionInfo = None\<rparr>),
      (str ''coles de bruselas'',
       \<lparr>canonical = str ''brussels sprouts'', productId = str ''brussels_007'', confidence = 0.9,
        regionInfo = Some \<lparr>region = str ''ES'', country = str ''Espa'' @ [0xF1] @ str ''a'', language = Some (str ''es'')\<rparr>\<rparr>),
      (str ''repollitas de bruselas'',
       \<lparr>canonical = str ''brussels sprouts'', productId = str ''brussels_007'', confidence = 0.9,
        regionInfo = Some \<lparr>region = str ''AR'', country = str ''Argentina'', language = Some (str ''es'')\<rparr>\<rparr>),
      (str ''couvinha de bruxelas'',
       \<lparr>canonical = str ''brussels sprouts'', productId = str ''brussels_007'', confidence = 0.9,
        regionInfo = Some \<lparr>region = str ''BR'', country = str ''Brasil'', language = Some (str ''es'')\<rparr>\<rparr>),
      (str ''pear'',
       \<lparr>canonical = str ''pear'', productId = str ''pear_008'', confidence = 1.0,
        regionInfo = None\<rparr>),
      (str ''pera'',
       \<lparr>canonical = str ''pear'', productId = str ''pear_008'', confidence = 0.9,
        regionInfo = Some \<lparr>region = str ''MX'', country = str ''M'' @ [0xE9] @ str ''xico'', language = Some (str ''es'')\<rparr>\<rparr>),
      (str ''p'' @ [0xEA] @ str ''ra'',
       \<lparr>canonical = str ''pear'', productId = str ''pear_008'', confidence = 0.9,
        regionInfo = Some \<lparr>region = str ''BR'', country = str ''Brasil'', language = Some (str ''es'')\<rparr>\<rparr>),
      (str ''orange'',
       \<lparr>canonical = str ''orange'', productId = str ''orange_009'', confidence = 1.0,
        regionInfo = None\<rparr>),
      (str ''naranja'',
       \<lparr>canonical = str ''orange'', productId = str ''orange_009'', confidence = 0.9,
        regionInfo = Some \<lparr>region = str ''MX'', country = str ''M'' @ [0xE9] @ str ''xico'', language = Some (str ''es'')\<rparr>\<rparr>),
      (str ''china'',
       \<lparr>canonical = str ''orange'', productId = str ''orange_009'', confidence = 0.9,
        regionInfo = Some \<lparr>region = str ''PR'', country = str ''PR'', language = Some (str ''es'')\<rparr>\<rparr>),
      (str ''laranja'',
       \<lparr>canonical = str ''orange'', productId = str ''orange_009'', confidence = 0.9,
        regionInfo = Some \<lparr>region = str ''BR'', country = str ''Brasil'', language = Some (str ''es'')\<rparr>\<rparr>),
      (str ''salmon'',
       \<lparr>canonical = str ''salmon'', productId = str ''salmon_003'', confidence = 1.0,
        regionInfo = None\<rparr>),
      (str ''salm'' @ [0xF3] @ str ''n'',
       \<lparr>canonical = str ''salmon'', productId = str ''salmon_003'', confidence = 0.9,
        regionInfo = Some \<lparr>region = str ''MX'', country = str ''M'' @ [0xE9] @ str ''xico'', language = Some (str ''es'')\<rparr>\<rparr>),
      (str ''salm'' @ [0xE3] @ str ''o'',
       \<lparr>canonical = str ''salmon'', productId = str ''salmon_003'', confidence = 0.9,
        regionInfo = Some \<lparr>region = str ''BR'', country = str ''Brasil'', language = Some (str ''es'')\<rparr>\<rparr>),
      (str ''almonds'',
       \<lparr>canonical = str ''almonds'', productId = str ''almonds_004'', confidence = 1.0,
        regionInfo = None\<rparr>),
      (str ''almendras'',
       \<lparr>canonical = str ''almonds'', productId = str ''almonds_004'', confidence = 0.9,
        regionInfo = Some \<lparr>region = str ''MX'', country = str ''M'' @ [0xE9] @ str ''xico'', language = Some (str ''es'')\<rparr>\<rparr>),
      (str ''am'' @ [0xEA] @ str ''ndoas'',
       \<lparr>canonical = str ''almonds'', productId = str ''almonds_004'', confidence = 0.9,
        regionInfo = Some \<lparr>region = str ''BR'', country = str ''Brasil'', language = Some (str ''es'')\<rparr>\<rparr>),
      (str ''popcorn'',
       \<lparr>canonical = str ''popcorn'', productId = str ''chips_009'', confidence = 1.0,
        regionInfo = None\<rparr>),
      (str ''palomitas de ma'' @ [0xED] @ str ''z'',
       \<lparr>canonical = str ''popcorn'', productId = str ''chips_009'', confidence = 0.9,
        regionInfo = Some \<lparr>region = str ''MX'', country = str ''M'' @ [0xE9] @ str ''xico'', language = Some (str ''es'')\<rparr>\<rparr>),
      (str ''palomitas'',
       \<lparr>canonical = str ''popcorn'', productId = str ''chips_009'', confidence = 0.9,
        regionInfo = Some \<lparr>region = str ''MX'', country = str ''M'' @ [0xE9] @ str ''xico'', language = Some (str ''es'')\<rparr>\<rparr>),
      (str ''pochoclo'',
       \<lparr>canonical = str ''popcorn'', productId = str ''chips_009'', confidence = 0.9,
        regionInfo = Some \<lparr>region = str ''AR'', country = str ''Argentina'', language = Some (str ''es'')\<rparr>\<rparr>),
      (str ''canguil'',
       \<lparr>canonical = str ''popcorn'', productId = str ''chips_009'', confidence = 0.9,
        regionInfo = Some \<lparr>region = str ''EC'', country = str ''Ecuador'', language = Some (str ''es'')\<rparr>\<rparr>),
      (str ''cotufas'',
       \<lparr>canonical = str ''popcorn'', productId = str ''chips_009'', confidence = 0.9,
        regionInfo = Some \<lparr>region = str ''VE'', country = str ''Venezuela'', language = Some (str ''es'')\<rparr>\<rparr>),
      (str ''crispetas'',
       \<lparr>canonical = str ''popcorn'', productId = str ''chips_009'', confidence = 0.9,
        regionInfo = Some \<lparr>region = str ''CO'', country = str ''Colombia'', language = Some (str ''es'')\<rparr>\<rparr>),
      (str ''poror'' @ [0xF3],
       \<lparr>canonical = str ''popcorn'', productId = str ''chips_009'', confidence = 0.9,
        regionInfo = Some \<lparr>region = str ''BR'', country = str ''Brasil'', language = Some (str ''es'')\<rparr>\<rparr>),
      (str ''rositas de ma'' @ [0xED] @ str ''z'',
       \<lparr>canonical = str ''popcorn'', productId = str ''chips_009'', confidence = 0.9,
        regionInfo = Some \<lparr>region = str ''GT'', country = str ''Guatemala'', language = Some (str ''es'')\<rparr>\<rparr>)]"
  by code_simp

section \<open>All variations of a canonical term\<close>




section \<open>Filters without a definition\<close>

lemma applyFilters_append:
  "applyFilters reg (fs1 @ fs2) st = applyFilters reg fs2 (applyFilters reg fs1 st)"
proof (induction fs1 arbitrary: st)
  case Nil
  then show ?case by (cases st) simp
next
  case (Cons f fs1)
  then show ?case by (cases st) (simp split: option.splits)
qed

lemma applyFilters_applied:
  "snd (applyFilters reg fs (its, applied)) =
   applied @ filter (\<lambda>f. map_of reg (filter_type f) \<noteq> None) fs"
  by (induction fs arbitrary: its applied) (auto split: option.splits)

lemma applyFilters_unregistered:
  assumes "map_of reg (filter_type f) = None"
  shows "applyFilters reg (fs1 @ f # fs2) st = applyFilters reg (fs1 @ fs2) st"
proof -
  obtain its applied where st: "applyFilters reg fs1 st = (its, applied)"
    by (cases "applyFilters reg fs1 st")
  show ?thesis
    using assms by (simp add: applyFilters_append st)
qed

text \<open>
  Claim C10. A filter whose type has no definition in the registry is skipped: the
  query returns what it returns without that filter, and the applied filters are the
  supplied filters of a registered type, in the order supplied.
\<close>

theorem executeQuery_unregistered_filter:
  "(map_of filterRegistry (filter_type f) = None \<longrightarrow>
      executeQuery rt filterRegistry its (options\<lparr>filters := Some (fs1 @ f # fs2)\<rparr>) =
      executeQuery rt filterRegistry its (options\<lparr>filters := Some (fs1 @ fs2)\<rparr>)) \<and>
   appliedFilters (executeQuery rt filterRegistry its (options\<lparr>filters := Some fs\<rparr>)) =
     filter (\<lambda>f. map_of filterRegistry (filter_type f) \<noteq> None) fs"
proof (intro conjI impI)
  assume "map_of filterRegistry (filter_type f) = None"
  then show "executeQuery rt filterRegistry its (options\<lparr>filters := Some (fs1 @ f # fs2)\<rparr>) =
      executeQuery rt filterRegistry its (options\<lparr>filters := Some (fs1 @ fs2)\<rparr>)"
    by (simp add: executeQuery_def applyFilters_unregistered case_prod_beta Let_def cong: option.case_cong if_cong)
next
  define start where
    "start = (case searchTerm options of
               None \<Rightarrow> its
             | Some t \<Rightarrow>
                 if t \<noteq> [] \<and> js_trim t \<noteq> []
                 then filter (matchesSearchTerm (js_trim (js_toLowerCase t))) its
                 else its)"
  obtain kept applied where run: "applyFilters filterRegistry fs (start, []) = (kept, applied)"
    by (cases "applyFilters filterRegistry fs (start, [])")
  from applyFilters_applied [of filterRegistry fs start "[]"] run
  have "applied = filter (\<lambda>f. map_of filterRegistry (filter_type f) \<noteq> None) fs"
    by simp
  then show "appliedFilters (executeQuery rt filterRegistry its (options\<lparr>filters := Some fs\<rparr>)) =
     filter (\<lambda>f. map_of filterRegistry (filter_type f) \<noteq> None) fs"
    using run by (simp add: executeQuery_def start_def case_prod_beta Let_def cong: option.case_cong if_cong)
qed

text \<open>A filter of the unregistered type \<open>price\<close> before the category filter.\<close>

theorem executeQuery_unregistered_filter_witness:
  "map_of (example_registry :: (jsstring \<times> (unit, jsstring) FilterDefinition) list)
     (filter_type unknown_criteria) = None \<and>
   executeQuery example_runtime example_registry catalog
     (example_query\<lparr>filters := Some [unknown_criteria, fruit_criteria]\<rparr>) =
   executeQuery example_runtime example_registry catalog
     (example_query\<lparr>filters := Some [fruit_criteria]\<rparr>) \<and>
   appliedFilters
     (executeQuery example_runtime example_registry catalog
        (example_query\<lparr>filters := Some [unknown_criteria, fruit_criteria]\<rparr>)) = [fruit_criteria] \<and>
   map item_id (result_items
     (executeQuery example_runtime example_registry catalog
        (example_query\<lparr>filters := Some [unknown_criteria, fruit_criteria]\<rparr>))) = [str ''2'']"
proof -
  have unknown: "map_of (example_registry :: (jsstring \<times> (unit, jsstring) FilterDefinition) list)
     (filter_type unknown_criteria) = None"
    by code_simp
  have registered: "filter (\<lambda>f. map_of (example_registry :: (jsstring \<times> (unit, jsstring) FilterDefinition) list) (filter_type f) \<noteq> None)
      [unknown_criteria, fruit_criteria] = [fruit_criteria]"
    by code_simp
  have kept: "map item_id (result_items
     (executeQuery example_runtime example_registry catalog
        (example_query\<lparr>filters := Some [unknown_criteria, fruit_criteria]\<rparr>))) = [str ''2'']"
    by code_simp
  note skipped = executeQuery_unregistered_filter
    [where filterRegistry = example_registry and f = unknown_criteria and rt = example_runtime
      and its = catalog and options = example_query and ?fs1.0 = "[]"
      and ?fs2.0 = "[fruit_criteria]" and fs = "[unknown_criteria, fruit_criteria]"]
  from skipped unknown
  have same: "executeQuery example_runtime example_registry catalog
       (example_query\<lparr>filters := Some ([] @ unknown_criteria # [fruit_criteria])\<rparr>) =
     executeQuery example_runtime example_registry catalog
       (example_query\<lparr>filters := Some ([] @ [fruit_criteria])\<rparr>)"
    by blast
  from skipped
  have "appliedFilters
     (executeQuery example_runtime example_registry catalog
        (example_query\<lparr>filters := Some [unknown_criteria, fruit_criteria]\<rparr>)) =
     filter (\<lambda>f. map_of (example_registry :: (jsstring \<times> (unit, jsstring) FilterDefinition) list) (filter_type f) \<noteq> None)
      [unknown_criteria, fruit_criteria]"
    by (rule conjunct2)
  then have applied: "appliedFilters
     (executeQuery example_runtime example_registry catalog
        (example_query\<lparr>filters := Some [unknown_criteria, fruit_criteria]\<rparr>)) = [fruit_criteria]"
    by (simp only: registered)
  from same have same': "executeQuery example_runtime example_registry catalog
       (example_query\<lparr>filters := Some [unknown_criteria, fruit_criteria]\<rparr>) =
     executeQuery example_runtime example_registry catalog
       (example_query\<lparr>filters := Some [fruit_criteria]\<rparr>)"
    by (simp only: append_Nil)
  from unknown same' applied kept show ?thesis
    by (intro conjI)
qed

section \<open>Normalizing twice\<close>

text \<open>
  Claim C2 fails at the string \<open>! a\<close> under the default options. The text is
  trimmed first, and accents and special characters are removed afterwards, so a
  removed character can leave white space at an end: \<open>! a\<close> normalizes to \<open> a\<close>,
  which is not trimmed although \<open>trimWhitespace\<close> is on, and \<open> a\<close> normalizes to
  \<open>a\<close>. For the search the space counts: the query \<open>- zanahoria\<close> normalizes to
  \<open> zanahoria\<close>, which is not the normalized name of the first item of the catalog,
  and the exact strategy finds nothing.
\<close>

theorem normalize_text_not_idempotent:
  "normalize_text DEFAULT_OPTIONS (str ''! a'') = str '' a'' \<and>
   normalize_text DEFAULT_OPTIONS (normalize_text DEFAULT_OPTIONS (str ''! a'')) = str ''a'' \<and>
   normalize_text DEFAULT_OPTIONS (normalize_text DEFAULT_OPTIONS (str ''! a'')) \<noteq>
     normalize_text DEFAULT_OPTIONS (str ''! a'') \<and>
   trimWhitespace DEFAULT_OPTIONS \<and>
   js_trim (normalize_text DEFAULT_OPTIONS (str ''! a'')) \<noteq>
     normalize_text DEFAULT_OPTIONS (str ''! a'') \<and>
   normalize_text DEFAULT_OPTIONS (str ''- zanahoria'') = str '' zanahoria'' \<and>
   normalize_text DEFAULT_OPTIONS (str ''Zanahoria'') = str ''zanahoria'' \<and>
   getExactMatchesOf catalog (str ''- zanahoria'')
     (normalize_text DEFAULT_OPTIONS (str ''- zanahoria'')) = []"
  by code_simp

section \<open>Looking a term up\<close>

text \<open>
  \<open>findSynonyms\<close> never returns more than one match; for a term whose normalized form is
  not the name of a property of \<open>Object.prototype\<close> it returns the match of the entry
  under that key, and nothing where there is none.
\<close>

lemma findSynonyms_at_most_one: "length (findSynonyms idx t) \<le> 1"
  by (simp add: findSynonyms_def Let_def split: property.splits)

lemma findSynonyms_own_key:
  assumes "normalize_text DEFAULT_OPTIONS t \<notin> set Object_prototype_properties"
    and "map_of idx [] = None"
  shows "findSynonyms idx t =
     (case map_of idx (normalize_text DEFAULT_OPTIONS t) of
        None \<Rightarrow> []
      | Some e \<Rightarrow>
          [\<lparr>canonicalTerm = Some (canonical e), originalTerm = t,
            matchConfidence = Some (confidence e), matchRegionInfo = regionInfo e\<rparr>])"
proof (cases "t = [] \<or> length (js_trim t) = 0")
  case True
  then have "normalize_text DEFAULT_OPTIONS t = []"
    by (auto simp: normalize_text_def DEFAULT_OPTIONS_def js_toLowerCase_def normalize_NFD_def)
  with True assms(2) show ?thesis
    by (simp add: findSynonyms_def)
next
  case False
  with assms(1) show ?thesis
    by (simp add: findSynonyms_def get_property_def Let_def split: option.splits)
qed

text \<open>
  Claim C8 fails for the term \<open>constructor\<close>, which is no key of the index: the read
  \<open>this.searchIndex[normalizedTerm]\<close> finds the constructor every object inherits, the
  test \<open>if (synonymEntry)\<close> passes, and a match is returned whose canonical term and
  confidence are undefined. The term \<open>__proto__\<close> fares alike.
\<close>

theorem findSynonyms_inherited_property:
  "map_of SynonymService_searchIndex (normalize_text DEFAULT_OPTIONS (str ''constructor'')) = None \<and>
   findSynonyms SynonymService_searchIndex (str ''constructor'') =
     [\<lparr>canonicalTerm = None, originalTerm = str ''constructor'', matchConfidence = None,
       matchRegionInfo = None\<rparr>] \<and>
   hasSynonyms SynonymService_searchIndex (str ''constructor'') \<and>
   map_of SynonymService_searchIndex (normalize_text DEFAULT_OPTIONS (str ''__proto__'')) = None \<and>
   length (findSynonyms SynonymService_searchIndex (str ''__proto__'')) = 1"
  unfolding searchIndex_built by code_simp

section \<open>The keys of the index\<close>

text \<open>
  Claim C4 fails on the built index. \<open>buildSearchIndex\<close> lower-cases its keys and
  does not normalize them: seventeen keys keep an accent or a hyphen. \<open>findSynonyms\<close>
  normalizes the term before the read, so the accented synonym of \<open>broccoli\<close>
  (\<open>br\<close>, \<open>U+00F3\<close>, \<open>coli\<close>) is not found. The canonical term \<open>banana\<close> is
  also a synonym of its own group, and its key holds the entry of the synonym, of
  confidence \<open>0.9\<close>.
\<close>

theorem searchIndex_keys_not_normalized:
  "filter (\<lambda>k. normalize_text DEFAULT_OPTIONS k \<noteq> k) (map fst SynonymService_searchIndex) =
     [[0xF1] @ str ''ame'',
      str ''br'' @ [0xF3] @ str ''coli'',
      str ''br'' @ [0xE9] @ str ''col'',
      str ''semillas de ch'' @ [0xED] @ str ''a'',
      str ''ch'' @ [0xED] @ str ''a'',
      str ''qu'' @ [0xED] @ str ''noa'',
      str ''ar'' @ [0xE1] @ str ''ndanos'',
      str ''ar'' @ [0xE1] @ str ''ndanos azules'',
      str ''pl'' @ [0xE1] @ str ''tano'',
      str ''couve-flor'',
      str ''p'' @ [0xEA] @ str ''ra'',
      str ''salm'' @ [0xF3] @ str ''n'',
      str ''salm'' @ [0xE3] @ str ''o'',
      str ''am'' @ [0xEA] @ str ''ndoas'',
      str ''palomitas de ma'' @ [0xED] @ str ''z'',
      str ''poror'' @ [0xF3],
      str ''rositas de ma'' @ [0xED] @ str ''z''] \<and>
   normalize_text DEFAULT_OPTIONS (str ''br'' @ [0xF3] @ str ''coli'') = str ''brocoli'' \<and>
   findSynonyms SynonymService_searchIndex (str ''br'' @ [0xF3] @ str ''coli'') = [] \<and>
   normalize_text DEFAULT_OPTIONS (str ''banana'') = str ''banana'' \<and>
   map_option confidence (map_of SynonymService_searchIndex (str ''banana'')) = Some 0.9"
  unfolding searchIndex_built by code_simp

section \<open>The query \<open>palta\<close>\<close>

lemma limitAndSort_subset: "set (limitAndSort rs options) \<subseteq> set rs"
proof -
  obtain k where "limitAndSort rs options =
     take k (sortByScore (filter (\<lambda>r. \<not> truthy (minScore options) \<or> the (minScore options) \<le> score r) rs))"
    using limitAndSort_take by blast
  then show ?thesis
    by (auto simp: sortByScore_def dest: in_set_takeD)
qed

lemma list_all_update: "list_all P m \<Longrightarrow> P (k, v) \<Longrightarrow> list_all P (AList.update k v m)"
  by (induction m) auto

lemma fuzzySearchOf_fuzzy:
  "list_all (\<lambda>(k, r). matchType r = Fuzzy) m \<Longrightarrow>
   list_all (\<lambda>(k, r). matchType r = Fuzzy) (fuzzySearchOf fs query m)"
  by (induction fs arbitrary: m) (simp_all add: Let_def list_all_update)

lemma partialSearchOf_no_match:
  "list_all (\<lambda>it. partialMatch it n = None) its \<Longrightarrow> partialSearchOf its n m = m"
  by (induction its) simp_all

lemma palta_only_fuzzy:
  "list_all (\<lambda>r. matchType r = Fuzzy) (search \<lparr>items = catalog, fuse = f\<rparr> (str ''palta'') options) \<and>
   list_all (\<lambda>r. matchType r = Fuzzy)
     (search_merged \<lparr>items = catalog, fuse = f\<rparr> (str ''palta'') options)"
proof
  let ?e = "\<lparr>items = catalog, fuse = f\<rparr>"
  let ?n = "normalize_text DEFAULT_OPTIONS (str ''palta'')"
  have query: "\<not> (str ''palta'' = [] \<or> length (js_trim (str ''palta'')) = 0)"
    by code_simp
  have exact: "getExactMatchesOf catalog (str ''palta'') ?n = []"
    by code_simp
  have partial: "getPartialMatchesOf catalog ?n = []"
    by code_simp
  have fuzzy: "\<forall>r\<in>set (getFuzzyMatches ?e (str ''palta'') options). matchType r = Fuzzy"
    by (auto simp: getFuzzyMatches_def)
  have "search ?e (str ''palta'') options =
      limitAndSort (getFuzzyMatches ?e (str ''palta'') options) options"
    using query exact partial
    by (simp add: search_def Let_def getExactMatches_def getPartialMatches_def)
  with fuzzy limitAndSort_subset
  show "list_all (\<lambda>r. matchType r = Fuzzy) (search ?e (str ''palta'') options)"
    unfolding list_all_iff by fastforce
  have no_exact: "exactSearchOf catalog (str ''palta'') ?n [] = []"
    by code_simp
  have no_partial: "list_all (\<lambda>it. partialMatch it ?n = None) catalog"
    by code_simp
  let ?m = "fuzzySearchOf (f (str ''palta'')) (str ''palta'') ([] :: unit ResultMap)"
  have "list_all (\<lambda>(k, r). matchType r = Fuzzy) ?m"
    by (rule fuzzySearchOf_fuzzy) simp
  then have all_fuzzy: "\<forall>r\<in>set (map snd ?m). matchType r = Fuzzy"
    by (auto simp: list_all_iff)
  have "search_merged ?e (str ''palta'') options = limitAndSort (map snd ?m) options"
    using query no_exact partialSearchOf_no_match [OF no_partial]
    by (simp add: search_merged_limitAndSort exactSearch_def fuzzySearch_def partialSearch_def)
  with all_fuzzy limitAndSort_subset
  show "list_all (\<lambda>r. matchType r = Fuzzy) (search_merged ?e (str ''palta'') options)"
    unfolding list_all_iff by fastforce
qed

lemma palta_resolves_to_avocado:
  "findSynonyms SynonymService_searchIndex (str ''palta'') =
     [\<lparr>canonicalTerm = Some (str ''avocado''), originalTerm = str ''palta'',
       matchConfidence = Some 0.9,
       matchRegionInfo =
         Some \<lparr>region = str ''AR'', country = str ''Argentina'', language = Some (str ''es'')\<rparr>\<rparr>]"
  unfolding searchIndex_built by code_simp

lemma palta_synonym_strategy:
  "findMatches SynonymService_searchIndex catalog (str ''palta'')
     (normalize_text DEFAULT_OPTIONS (str ''palta'')) = []"
  unfolding searchIndex_built by code_simp

lemma palta_synonym_strategy_avocado:
  "findMatches SynonymService_searchIndex catalog_avocado (str ''palta'')
     (normalize_text DEFAULT_OPTIONS (str ''palta'')) =
     [\<lparr>item = catalog_avocado ! 1, score = 0.855, matchType = Partial,
       matchedTerms = [str ''Avocado'', str ''palta '' @ [0x2192] @ str '' avocado''],
       originalQuery = str ''palta''\<rparr>]"
  unfolding searchIndex_built by code_simp

text \<open>
  Claim C5 fails on the two-item catalog. The vocabulary resolves \<open>palta\<close> to the
  canonical term \<open>avocado\<close>, so the synonym strategy finds no item named
  \<open>Aguacate\<close>; neither \<open>search\<close> consults the strategy, and whatever Fuse reports,
  each returns fuzzy results only. With the second item named \<open>Avocado\<close> the strategy
  returns it, at score \<open>0.855\<close>, as a match of type \<open>partial\<close>, with the matched term
  \<open>palta \<rightarrow> avocado\<close>.
\<close>

theorem palta_synonym_not_found:
  "findSynonyms SynonymService_searchIndex (str ''palta'') =
     [\<lparr>canonicalTerm = Some (str ''avocado''), originalTerm = str ''palta'',
       matchConfidence = Some 0.9,
       matchRegionInfo =
         Some \<lparr>region = str ''AR'', country = str ''Argentina'', language = Some (str ''es'')\<rparr>\<rparr>] \<and>
   findMatches SynonymService_searchIndex catalog (str ''palta'')
     (normalize_text DEFAULT_OPTIONS (str ''palta'')) = [] \<and>
   list_all (\<lambda>r. matchType r = Fuzzy) (search \<lparr>items = catalog, fuse = f\<rparr> (str ''palta'') options) \<and>
   list_all (\<lambda>r. matchType r = Fuzzy)
     (search_merged \<lparr>items = catalog, fuse = f\<rparr> (str ''palta'') options) \<and>
   findMatches SynonymService_searchIndex catalog_avocado (str ''palta'')
     (normalize_text DEFAULT_OPTIONS (str ''palta'')) =
     [\<lparr>item = catalog_avocado ! 1, score = 0.855, matchType = Partial,
       matchedTerms = [str ''Avocado'', str ''palta '' @ [0x2192] @ str '' avocado''],
       originalQuery = str ''palta''\<rparr>]"
  using palta_resolves_to_avocado palta_synonym_strategy palta_only_fuzzy [of f options]
    palta_synonym_strategy_avocado
  by blast

text \<open>On the example engine, whose index reports the first item: one result, a fuzzy one.\<close>

theorem palta_synonym_not_found_witness:
  "list_all (\<lambda>r. matchType r = Fuzzy) (search example_engine (str ''palta'') default_options) \<and>
   length (search example_engine (str ''palta'') default_options) = 1"
proof -
  have engine: "example_engine = \<lparr>items = catalog, fuse = Fuse_first_item catalog getFuseConfig\<rparr>"
    by (simp add: example_engine_def new_HybridSearchEngine_def)
  have one: "length (search example_engine (str ''palta'') default_options) = 1"
    by code_simp
  from palta_synonym_not_found [of "Fuse_first_item catalog getFuseConfig" default_options]
  have "list_all (\<lambda>r. matchType r = Fuzzy)
      (search \<lparr>items = catalog, fuse = Fuse_first_item catalog getFuseConfig\<rparr> (str ''palta'')
         default_options)"
    by blast
  with one show ?thesis
    by (simp only: engine)
qed

section \<open>The text search of the QueryEngine\<close>

text \<open>
  Claim C3 fails: \<open>executeQuery\<close> does not call the HybridSearchEngine. It keeps the
  items whose lower-cased name or category contains the lower-cased, trimmed term. For
  the term \<open>Zanahoria!\<close> it returns no item of the catalog, whatever the runtime and
  the registry, where \<open>search\<close> returns the first item as an exact match, whatever Fuse
  reports.
\<close>

theorem executeQuery_is_substring_filter:
  "result_items
     (executeQuery rt filterRegistry catalog
        \<lparr>searchTerm = Some (str ''Zanahoria!''), filters = None, sortBy = None, sortOrder = None\<rparr>) = [] \<and>
   map item (search \<lparr>items = catalog, fuse = f\<rparr> (str ''Zanahoria!'') default_options) = [catalog ! 0]"
  by code_simp

end
